theory Spec2Isabelle
  imports Complex_Main "HOL-Library.Word" "HOL-Library.Sublist"
begin

section \<open>The Revolut converter: strings and numbers of the host language\<close>

text \<open>
  The converter (\<^verbatim>\<open>src/converters/revolutConverter.ts\<close>) is TypeScript. Its strings are
  sequences of UTF-16 code units, so a string is a list of 16-bit words: the euro sign
  is the single unit \<open>0x20AC\<close>, the pound sign \<open>0x00A3\<close>. \<open>js\<close> embeds an ASCII
  literal.
\<close>

type_synonym jschar = "16 word"
type_synonym jsstring = "jschar list"

definition js :: "string \<Rightarrow> jsstring" where
  "js s = map of_char s"

text \<open>
  \<^verbatim>\<open>String.prototype.trim\<close> removes the WhiteSpace and LineTerminator code points of
  ECMAScript from both ends.
\<close>

definition isWhiteSpace :: "jschar \<Rightarrow> bool" where
  "isWhiteSpace c =
     (c = 0x09 \<or> c = 0x0A \<or> c = 0x0B \<or> c = 0x0C \<or> c = 0x0D \<or> c = 0x20 \<or> c = 0xA0
      \<or> c = 0x1680 \<or> (0x2000 \<le> c \<and> c \<le> 0x200A) \<or> c = 0x2028 \<or> c = 0x2029
      \<or> c = 0x202F \<or> c = 0x205F \<or> c = 0x3000 \<or> c = 0xFEFF)"

definition trimStart :: "jsstring \<Rightarrow> jsstring" where
  "trimStart s = dropWhile isWhiteSpace s"

definition trim :: "jsstring \<Rightarrow> jsstring" where
  "trim s = rev (dropWhile isWhiteSpace (rev (dropWhile isWhiteSpace s)))"

text \<open>
  Case mapping, in a locale without special rules for \<open>i\<close> (not Turkish, Azeri or
  Lithuanian). The letters of Basic Latin are mapped (\<open>A\<close>..\<open>Z\<close> and \<open>a\<close>..\<open>z\<close>).
  Outside Basic Latin the Kelvin sign \<open>U+212A\<close> is lowercased to \<open>k\<close> and the long
  s \<open>U+017F\<close> is uppercased to \<open>S\<close>. Every other code unit is left as it is. The
  converter uses the mapped text only to compare it with words of Basic Latin letters
  (and with the euro, dollar and pound sign), so what the runtime makes of a letter
  whose image has no Basic Latin letter does not matter. The remaining letters with
  such an image cannot complete one of the words: the dotted capital I \<open>U+0130\<close>
  becomes \<open>i\<close> followed by a combining dot, and no word ends in \<open>i\<close>; the
  uppercase images \<open>SS\<close>, \<open>ST\<close>, \<open>FF\<close>, \<open>FI\<close>, \<open>FL\<close>, \<open>I\<close> and the letters
  followed by a combining mark are no part of \<open>SEK\<close>.
\<close>

definition toLowerUnit :: "jschar \<Rightarrow> jschar" where
  "toLowerUnit c =
     (if 0x41 \<le> c \<and> c \<le> 0x5A then c + 0x20 else if c = 0x212A then 0x6B else c)"

definition toUpperUnit :: "jschar \<Rightarrow> jschar" where
  "toUpperUnit c =
     (if 0x61 \<le> c \<and> c \<le> 0x7A then c - 0x20 else if c = 0x017F then 0x53 else c)"

definition toLocaleLowerCase :: "jsstring \<Rightarrow> jsstring" where
  "toLocaleLowerCase s = map toLowerUnit s"

definition toLocaleUpperCase :: "jsstring \<Rightarrow> jsstring" where
  "toLocaleUpperCase s = map toUpperUnit s"

text \<open>
  \<^verbatim>\<open>s.indexOf(t)\<close>: the position of the first occurrence of \<open>t\<close> in \<open>s\<close>, or \<open>-1\<close>.
\<close>

fun indexOf :: "jsstring \<Rightarrow> jsstring \<Rightarrow> int" where
  "indexOf [] t = (if t = [] then 0 else -1)"
| "indexOf (c # cs) t =
     (if prefix t (c # cs) then 0
      else (let i = indexOf cs t in if i < 0 then -1 else i + 1))"

text \<open>
  \<^verbatim>\<open>s.replace(pat, rep)\<close> with a string pattern replaces the first occurrence only.
\<close>

fun replaceFirst :: "jsstring \<Rightarrow> jsstring \<Rightarrow> jsstring \<Rightarrow> jsstring" where
  "replaceFirst pat rep [] = (if pat = [] then rep else [])"
| "replaceFirst pat rep (c # cs) =
     (if prefix pat (c # cs) then rep @ drop (length pat) (c # cs)
      else c # replaceFirst pat rep cs)"

text \<open>
  The two regular expressions of the converter, \<^verbatim>\<open>/[$]/g\<close> and \<^verbatim>\<open>/([\d.,]+)/g\<close>, are a
  character class, the second one under \<open>+\<close>. A global scan with \<open>class+\<close> cuts the subject into
  maximal runs of class members (the matches, leftmost and greedy) and the text between
  them; \<open>scan\<close> returns the pieces in order.
\<close>

datatype piece = Text jsstring | Match jsstring

fun scan :: "(jschar \<Rightarrow> bool) \<Rightarrow> jsstring \<Rightarrow> piece list" where
  "scan p [] = []"
| "scan p (c # cs) =
     (if p c then
        (case scan p cs of
           Match m # r \<Rightarrow> Match (c # m) # r
         | r \<Rightarrow> Match [c] # r)
      else
        (case scan p cs of
           Text t # r \<Rightarrow> Text (c # t) # r
         | r \<Rightarrow> Text [c] # r))"

fun matches :: "piece list \<Rightarrow> jsstring list" where
  "matches [] = []"
| "matches (Match m # r) = m # matches r"
| "matches (Text t # r) = matches r"

text \<open>\<^verbatim>\<open>s.match(/class+/g)\<close>: the array of all matches, or \<open>null\<close> when there is none.\<close>

definition matchAll :: "(jschar \<Rightarrow> bool) \<Rightarrow> jsstring \<Rightarrow> jsstring list option" where
  "matchAll p s = (case matches (scan p s) of [] \<Rightarrow> None | m # ms \<Rightarrow> Some (m # ms))"

text \<open>\<^verbatim>\<open>s.replace(/class+/g, rep)\<close>: every match is replaced, the text between is kept.\<close>

fun replaced :: "jsstring \<Rightarrow> piece list \<Rightarrow> jsstring" where
  "replaced rep [] = []"
| "replaced rep (Match m # r) = rep @ replaced rep r"
| "replaced rep (Text t # r) = t @ replaced rep r"

definition replaceAll :: "(jschar \<Rightarrow> bool) \<Rightarrow> jsstring \<Rightarrow> jsstring \<Rightarrow> jsstring" where
  "replaceAll p rep s = replaced rep (scan p s)"

definition isDigit :: "jschar \<Rightarrow> bool" where
  "isDigit c = (0x30 \<le> c \<and> c \<le> 0x39)"

text \<open>The class \<^verbatim>\<open>[\d.,]\<close>: a decimal digit, a dot or a comma.\<close>

definition isAmountChar :: "jschar \<Rightarrow> bool" where
  "isAmountChar c = (isDigit c \<or> c = 0x2E \<or> c = 0x2C)"

text \<open>The class \<^verbatim>\<open>[$]\<close>.\<close>

definition isDollar :: "jschar \<Rightarrow> bool" where
  "isDollar c = (c = 0x24)"

subsection \<open>Numbers\<close>

text \<open>
  A Number is NaN, an infinity, the negative zero, or a finite value. \<open>Num q\<close> stands
  for the double nearest to the mathematical value \<open>q\<close>: \<open>q\<close> itself when it is
  representable, as \<open>12.5\<close>, \<open>1234.5\<close> and the small integers are.
\<close>

datatype jsnumber = NaN | PosInfinity | NegInfinity | NegZero | Num rat

text \<open>
  \<^verbatim>\<open>Math.abs(x)\<close>; a missing field (\<open>undefined\<close>) converts to NaN.
\<close>

fun Math_abs :: "jsnumber option \<Rightarrow> jsnumber" where
  "Math_abs None = NaN"
| "Math_abs (Some NaN) = NaN"
| "Math_abs (Some PosInfinity) = PosInfinity"
| "Math_abs (Some NegInfinity) = PosInfinity"
| "Math_abs (Some NegZero) = Num 0"
| "Math_abs (Some (Num q)) = Num \<bar>q\<bar>"

text \<open>
  \<^verbatim>\<open>parseFloat(s)\<close>: leading white space is skipped, then the longest prefix that is a
  decimal literal is read (an optional sign, then \<open>Infinity\<close>, or digits with an
  optional fraction, or a fraction alone, then an optional exponent which counts only
  when it has a digit); anything after it is ignored. No such prefix gives NaN.
\<close>

definition digitsValue :: "jsstring \<Rightarrow> nat" where
  "digitsValue ds = foldl (\<lambda>a c. 10 * a + (unat c - 48)) 0 ds"

definition signOf :: "jsstring \<Rightarrow> bool \<times> jsstring" where
  "signOf s =
     (case s of
        [] \<Rightarrow> (False, [])
      | c # cs \<Rightarrow> if c = 0x2D then (True, cs) else if c = 0x2B then (False, cs) else (False, s))"

definition exponentPart :: "jsstring \<Rightarrow> int" where
  "exponentPart s =
     (case s of
        [] \<Rightarrow> 0
      | c # cs \<Rightarrow>
          if c = 0x65 \<or> c = 0x45 then
            (let (neg, ds) = signOf cs; ed = takeWhile isDigit ds
             in if ed = [] then 0
                else if neg then - int (digitsValue ed) else int (digitsValue ed))
          else 0)"

text \<open>
  The range of the doubles. A magnitude of at least \<open>2^1024 - 2^970\<close>, half way
  between the largest double and \<open>2^1024\<close>, is rounded to an infinity; a magnitude of
  at most \<open>2^-1075\<close>, half of the smallest double, is rounded to zero.
\<close>

definition overflows :: "rat \<Rightarrow> bool" where
  "overflows q = (2 ^ 1024 - 2 ^ 970 \<le> q)"

definition underflows :: "rat \<Rightarrow> bool" where
  "underflows q = (q * 2 ^ 1075 \<le> 1)"

definition scale10 :: "nat \<Rightarrow> int \<Rightarrow> rat" where
  "scale10 m k = (if 0 \<le> k then of_nat m * 10 ^ nat k else of_nat m / 10 ^ nat (- k))"

definition parseFloat :: "jsstring \<Rightarrow> jsnumber" where
  "parseFloat s =
     (let (neg, s2) = signOf (trimStart s) in
      if prefix (js ''Infinity'') s2 then (if neg then NegInfinity else PosInfinity)
      else
        (let ip = takeWhile isDigit s2;
             r1 = dropWhile isDigit s2;
             (fp, r2) =
               (case r1 of
                  [] \<Rightarrow> ([], [])
                | c # cs \<Rightarrow>
                    if c = 0x2E then (takeWhile isDigit cs, dropWhile isDigit cs)
                    else ([], r1))
         in if ip = [] \<and> fp = [] then NaN
            else
              (let q = scale10 (digitsValue (ip @ fp)) (exponentPart r2 - int (length fp))
               in if underflows q then (if neg then NegZero else Num 0)
                  else if overflows q then (if neg then NegInfinity else PosInfinity)
                  else Num (if neg then - q else q))))"


text \<open>\<^verbatim>\<open>s.replace(/[class]/g, rep)\<close>: every single member of the class is replaced.\<close>

definition replaceEach :: "(jschar \<Rightarrow> bool) \<Rightarrow> jsstring \<Rightarrow> jsstring \<Rightarrow> jsstring" where
  "replaceEach p rep s = concat (map (\<lambda>c. if p c then rep else [c]) s)"

text \<open>What is thrown: \<^verbatim>\<open>new Error(message)\<close>, or a TypeError of the runtime.\<close>

datatype jserror = Error jsstring | TypeError jsstring

fun message :: "jserror \<Rightarrow> jsstring" where
  "message (Error m) = m"
| "message (TypeError m) = m"

section \<open>The data model\<close>

text \<open>
  A row of the crypto export as the tokenizer hands it to \<^verbatim>\<open>on_record\<close>: every cell is
  still a string.
\<close>

record CryptoRow =
  date :: jsstring
  type :: jsstring
  symbol :: jsstring
  quantity :: jsstring
  price :: jsstring
  "value" :: jsstring
  fees :: jsstring

text \<open>
  \<^verbatim>\<open>RevolutRecord\<close>, the parsed row that \<^verbatim>\<open>processRevolutFile\<close> reads. A column that the
  schema at hand does not have is \<open>undefined\<close> (\<open>None\<close>): the invest schema has no
  \<open>symbol\<close> and no \<open>price\<close>, the crypto schema no \<open>ticker\<close>, \<open>pricePerShare\<close> and
  \<open>totalAmount\<close>.
\<close>

record RevolutRecord =
  date :: jsstring
  type :: jsstring
  ticker :: "jsstring option"
  symbol :: "jsstring option"
  currency :: jsstring
  quantity :: "jsnumber option"
  pricePerShare :: "jsnumber option"
  totalAmount :: "jsnumber option"
  price :: "jsnumber option"
  "value" :: "jsnumber option"
  fees :: "jsnumber option"

record YahooFinanceRecord =
  symbol :: jsstring

text \<open>One activity of the export, and the export.\<close>

record GhostfolioActivity =
  accountId :: "jsstring option"
  comment :: jsstring
  fee :: jsnumber
  quantity :: "jsnumber option"
  type :: "jsstring option"
  unitPrice :: "jsnumber option"
  currency :: jsstring
  dataSource :: jsstring
  date :: jsstring
  symbol :: jsstring

record GhostfolioMeta =
  date :: jsstring
  version :: jsstring

record GhostfolioExport =
  meta :: GhostfolioMeta
  activities :: "GhostfolioActivity list"

text \<open>
  What the converter takes from outside the file: the account id of the process
  environment, the clock, the security service, the enum \<^verbatim>\<open>GhostfolioOrderType\<close> and the
  date formatter. \<open>getSecurity env idx key cur\<close> is the answer of the service to the
  call made for row \<open>idx\<close>; the service may answer two equal calls differently.
\<close>

datatype lookup = Throws jserror | Returns "YahooFinanceRecord option"

record env =
  GHOSTFOLIO_ACCOUNT_ID :: "jsstring option"
  now :: jsstring
  getSecurity :: "nat \<Rightarrow> jsstring \<Rightarrow> jsstring \<Rightarrow> lookup"
  GhostfolioOrderType :: "jsstring \<Rightarrow> jsstring option"
  dayjsFormat :: "jsstring \<Rightarrow> jsstring"

text \<open>
  Everything the run does that can be seen from outside, in the order it happens: the
  console and progress output, the calls of the security service, and the calls of the
  two continuations.
\<close>

datatype event =
    ConsoleLog jsstring
  | BarCreate nat nat
  | BarIncrement
  | ProgressLog jsstring
  | ProgressStop
  | LogQueryError "jsstring option" nat
  | GetSecurity jsstring jsstring
  | SuccessCallback GhostfolioExport
  | ErrorCallback jserror

section \<open>The converter\<close>

subsection \<open>\<^verbatim>\<open>isIgnoredRecord\<close>\<close>

definition ignoredRecordTypes :: "jsstring list" where
  "ignoredRecordTypes =
     [js ''transfer from'', js ''withdrawal'', js ''top-up'', js ''stake'', js ''send'',
      js ''receive'']"

definition isIgnoredRecord :: "RevolutRecord \<Rightarrow> bool" where
  "isIgnoredRecord record =
     list_ex (\<lambda>t. indexOf (toLocaleLowerCase (RevolutRecord.type record)) t > -1)
       ignoredRecordTypes"

subsection \<open>\<^verbatim>\<open>detectCurrency\<close>\<close>

definition detectCurrency :: "jsstring \<Rightarrow> jsstring" where
  "detectCurrency v =
     (let currency = trim (replaceAll isAmountChar [] v);
          u = toLocaleUpperCase currency
      in if u = [0x20AC] then js ''EUR''
         else if u = js ''$'' then js ''USD''
         else if u = [0xA3] then js ''GBP''
         else if u = js ''SEK'' then js ''SEK''
         else js ''EUR'')"

subsection \<open>The \<^verbatim>\<open>cast\<close> callback of the invest schema\<close>

text \<open>
  The tokenizer calls \<^verbatim>\<open>cast\<close> on every cell with the name of its column. The block for
  the \<open>type\<close> column returns in four branches and otherwise falls through to the rest
  of the callback; \<open>castAction\<close> is that block, \<open>None\<close> when it falls through.
\<close>

datatype jsvalue = String jsstring | Number jsnumber

definition castAction :: "jsstring \<Rightarrow> jsstring option" where
  "castAction columnValue =
     (let action = toLocaleLowerCase columnValue
      in if indexOf action (js ''buy'') > -1 \<or> indexOf action (js ''stock split'') > -1
           then Some (js ''buy'')
         else if indexOf action (js ''sell'') > -1 then Some (js ''sell'')
         else if indexOf action (js ''dividend'') > -1 then Some (js ''dividend'')
         else if indexOf action (js ''fee'') > -1 then Some (js ''fee'')
         else None)"

definition cast :: "jsstring \<Rightarrow> jsstring \<Rightarrow> jsvalue" where
  "cast column columnValue =
     (if column = js ''currency'' \<and> columnValue = js ''GBX'' then String (js ''GBp'')
      else
        (case (if column = js ''type'' then castAction columnValue else None) of
           Some kind \<Rightarrow> String kind
         | None \<Rightarrow>
             if column = js ''quantity'' \<or> column = js ''pricePerShare''
                \<or> column = js ''totalAmount''
             then
               (if columnValue = [] then Number (Num 0)
                else Number (parseFloat (trim (replaceEach isDollar [] columnValue))))
             else String columnValue))"

subsection \<open>The \<^verbatim>\<open>on_record\<close> callback of the crypto schema\<close>

text \<open>
  \<^verbatim>\<open>m[0]\<close> on the result of \<^verbatim>\<open>match\<close>: reading an index of \<open>null\<close> throws a TypeError.
\<close>

definition firstMatch :: "jsstring list option \<Rightarrow> jserror + jsstring" where
  "firstMatch m =
     (case m of
        None \<Rightarrow> Inl (TypeError (js ''Cannot read properties of null''))
      | Some [] \<Rightarrow> Inl (TypeError (js ''Cannot read properties of undefined''))
      | Some (x # xs) \<Rightarrow> Inr x)"

text \<open>
  The amount of the \<open>value\<close> and of the \<open>fees\<close> cell: the match is taken first, and
  its first element is read only when the cell is not empty.
\<close>

definition amountOf :: "jsstring \<Rightarrow> jserror + jsnumber" where
  "amountOf cell =
     (let amount = matchAll isAmountChar cell
      in if cell \<noteq> [] then
           (case firstMatch amount of
              Inl e \<Rightarrow> Inl e
            | Inr a \<Rightarrow> Inr (parseFloat (replaceFirst (js '','') [] a)))
         else Inr (Num 0))"

text \<open>The amount of the \<open>price\<close> cell: no match falls back to \<^verbatim>\<open>["0"]\<close>.\<close>

definition priceOf :: "jsstring \<Rightarrow> jserror + jsnumber" where
  "priceOf cell =
     (let priceAmount =
            (case matchAll isAmountChar cell of None \<Rightarrow> Some [js ''0''] | Some ms \<Rightarrow> Some ms)
      in if cell \<noteq> [] then
           (case firstMatch priceAmount of
              Inl e \<Rightarrow> Inl e
            | Inr a \<Rightarrow> Inr (parseFloat (replaceFirst (js '','') [] a)))
         else Inr (Num 0))"

definition on_record :: "CryptoRow \<Rightarrow> jserror + RevolutRecord" where
  "on_record record =
     (let recordType = toLocaleLowerCase (CryptoRow.type record);
          type' = (if recordType = js ''buy'' then js ''buy''
                   else if recordType = js ''sell'' then js ''sell''
                   else js ''dividend'');
          currency' = detectCurrency (CryptoRow.price record)
      in case priceOf (CryptoRow.price record) of
           Inl e \<Rightarrow> Inl e
         | Inr price' \<Rightarrow>
             (case amountOf (CryptoRow.value record) of
                Inl e \<Rightarrow> Inl e
              | Inr value' \<Rightarrow>
                  (case amountOf (CryptoRow.fees record) of
                     Inl e \<Rightarrow> Inl e
                   | Inr fees' \<Rightarrow>
                       Inr \<lparr> RevolutRecord.date = CryptoRow.date record,
                             type = type',
                             ticker = None,
                             symbol = Some (CryptoRow.symbol record),
                             currency = currency',
                             quantity = Some (parseFloat (CryptoRow.quantity record)),
                             pricePerShare = None,
                             totalAmount = None,
                             price = Some price',
                             value = Some value',
                             fees = Some fees' \<rparr>)))"


subsection \<open>\<^verbatim>\<open>processRevolutFile\<close>\<close>

text \<open>A template literal prints a missing value as \<open>undefined\<close>.\<close>

definition template :: "jsstring option \<Rightarrow> jsstring" where
  "template v = (case v of None \<Rightarrow> js ''undefined'' | Some s \<Rightarrow> s)"

text \<open>\<^verbatim>\<open>a ?? b\<close>: \<open>b\<close> when \<open>a\<close> is \<open>null\<close> or \<open>undefined\<close>.\<close>

definition nullish :: "'a option \<Rightarrow> 'a option \<Rightarrow> 'a option" where
  "nullish a b = (case a of None \<Rightarrow> b | Some x \<Rightarrow> Some x)"

text \<open>The activity of a fee row, and the activity of a row whose security was found.\<close>

definition feeActivity :: "env \<Rightarrow> RevolutRecord \<Rightarrow> GhostfolioActivity" where
  "feeActivity e record =
     (let feeAmount = Math_abs (totalAmount record)
      in \<lparr> accountId = GHOSTFOLIO_ACCOUNT_ID e,
           comment = js ''Revolut '' @ toLocaleLowerCase (RevolutRecord.type record),
           fee = feeAmount,
           quantity = Some (Num 1),
           type = GhostfolioOrderType e (RevolutRecord.type record),
           unitPrice = Some (Num 0),
           currency = RevolutRecord.currency record,
           dataSource = js ''MANUAL'',
           date = dayjsFormat e (RevolutRecord.date record),
           symbol = js ''Revolut '' @ toLocaleLowerCase (RevolutRecord.type record) \<rparr>)"

definition securityActivity ::
  "env \<Rightarrow> RevolutRecord \<Rightarrow> YahooFinanceRecord \<Rightarrow> GhostfolioActivity" where
  "securityActivity e record security =
     (let (quantity', unitPrice') =
            (if RevolutRecord.type record = js ''dividend'' then
               (nullish (RevolutRecord.quantity record) (Some (Num 1)),
                Some (Math_abs (nullish (totalAmount record) (Some (Num 1)))))
             else
               (RevolutRecord.quantity record,
                nullish (pricePerShare record) (RevolutRecord.price record)))
      in \<lparr> accountId = GHOSTFOLIO_ACCOUNT_ID e,
           comment = [],
           fee = Num 0,
           quantity = quantity',
           type = GhostfolioOrderType e (RevolutRecord.type record),
           unitPrice = unitPrice',
           currency = RevolutRecord.currency record,
           dataSource = js ''YAHOO'',
           date = dayjsFormat e (RevolutRecord.date record),
           symbol = YahooFinanceRecord.symbol security \<rparr>)"

text \<open>The key of the lookup, and the note logged when the lookup finds nothing.\<close>

definition securityKey :: "RevolutRecord \<Rightarrow> jsstring" where
  "securityKey record =
     (case ticker record of
        Some t \<Rightarrow> t
      | None \<Rightarrow>
          template (RevolutRecord.symbol record) @ js ''-'' @ RevolutRecord.currency record)"

definition noResultNote :: "RevolutRecord \<Rightarrow> jsstring" where
  "noResultNote record =
     js ''[i] No result found for '' @ RevolutRecord.type record @ js '' action for ''
     @ template (nullish (ticker record) (RevolutRecord.symbol record))
     @ js '' with currency '' @ RevolutRecord.currency record
     @ js ''! Please add this manually..'' @ [0x0A]"

text \<open>
  One turn of the loop over the records. It leaves the loop body by \<^verbatim>\<open>continue\<close> or at
  its end (\<open>Continue\<close>, with the activities collected so far), or it leaves the whole
  function (\<open>Return\<close>, after the call of the error continuation).
\<close>

datatype step = Continue "GhostfolioActivity list" | Return

definition processRecord ::
  "env \<Rightarrow> nat \<Rightarrow> RevolutRecord \<Rightarrow> GhostfolioActivity list \<Rightarrow> event list \<times> step" where
  "processRecord e idx record acts =
     (if isIgnoredRecord record then ([BarIncrement], Continue acts)
      else if toLocaleLowerCase (RevolutRecord.type record) = js ''fee'' then
        ([BarIncrement], Continue (acts @ [feeActivity e record]))
      else
        (case getSecurity e idx (securityKey record) (RevolutRecord.currency record) of
           Throws err \<Rightarrow>
             ([GetSecurity (securityKey record) (RevolutRecord.currency record),
               LogQueryError (ticker record) (idx + 2),
               ErrorCallback err],
              Return)
         | Returns None \<Rightarrow>
             ([GetSecurity (securityKey record) (RevolutRecord.currency record),
               ProgressLog (noResultNote record),
               BarIncrement],
              Continue acts)
         | Returns (Some security) \<Rightarrow>
             ([GetSecurity (securityKey record) (RevolutRecord.currency record),
               BarIncrement],
              Continue (acts @ [securityActivity e record security]))))"

text \<open>
  The loop \<^verbatim>\<open>for (let idx = 0; idx < records.length; idx++)\<close>, from index \<open>idx\<close> on:
  its events, and the activities when the loop runs to its end (\<open>None\<close> when the
  function returned from inside the loop).
\<close>

fun forLoop ::
  "env \<Rightarrow> nat \<Rightarrow> RevolutRecord list \<Rightarrow> GhostfolioActivity list
     \<Rightarrow> event list \<times> GhostfolioActivity list option" where
  "forLoop e idx [] acts = ([], Some acts)"
| "forLoop e idx (record # records) acts =
     (case processRecord e idx record acts of
        (evs, Return) \<Rightarrow> (evs, None)
      | (evs, Continue acts') \<Rightarrow>
          (case forLoop e (Suc idx) records acts' of (evs', r) \<Rightarrow> (evs @ evs', r)))"

definition parsingFailed :: "jserror option \<Rightarrow> RevolutRecord list option \<Rightarrow> bool" where
  "parsingFailed err records =
     (err \<noteq> None \<or> (case records of None \<Rightarrow> True | Some rs \<Rightarrow> length rs = 0))"

definition parsingError :: "jserror option \<Rightarrow> jserror" where
  "parsingError err =
     Error (js ''An error ocurred while parsing!''
            @ (case err of None \<Rightarrow> [] | Some x \<Rightarrow> js '' Details: '' @ message x))"

definition processRevolutFile ::
  "env \<Rightarrow> jserror option \<Rightarrow> RevolutRecord list option \<Rightarrow> event list" where
  "processRevolutFile e err records =
     (if parsingFailed err records then [ErrorCallback (parsingError err)]
      else
        (let rs = (case records of None \<Rightarrow> [] | Some rs \<Rightarrow> rs) in
         [ConsoleLog (js ''[i] Read CSV file. Start processing..''), BarCreate (length rs) 0]
         @ (case forLoop e 0 rs [] of
              (evs, None) \<Rightarrow> evs
            | (evs, Some acts) \<Rightarrow>
                evs @ [ProgressStop,
                       SuccessCallback \<lparr> meta = \<lparr> date = now e, version = js ''v0'' \<rparr>,
                                          activities = acts \<rparr>])))"

section \<open>The properties, in the words of the specification\<close>

text \<open>
  The currency detector as the specification words it: every digit, dot and comma is
  removed, the rest is trimmed and uppercased, and the symbol is looked up.
\<close>

definition detectCurrency_spec :: "jsstring \<Rightarrow> jsstring" where
  "detectCurrency_spec v =
     (let rest = toLocaleUpperCase (trim (filter (\<lambda>c. \<not> isAmountChar c) v))
      in if rest = [0x20AC] then js ''EUR''
         else if rest = js ''$'' then js ''USD''
         else if rest = [0xA3] then js ''GBP''
         else if rest = js ''SEK'' then js ''SEK''
         else js ''EUR'')"

text \<open>
  The action mapping as the specification words it: a list of rules in order, each with
  the words that trigger it and the kind it gives; a label matches a word when the word
  is a substring of the lowercased label; the first rule that matches wins, and a label
  that matches no rule stays as it is.
\<close>

definition containsIgnoringCase :: "jsstring \<Rightarrow> jsstring \<Rightarrow> bool" where
  "containsIgnoringCase label word = sublist word (toLocaleLowerCase label)"

definition actionRules :: "(jsstring list \<times> jsstring) list" where
  "actionRules =
     [([js ''buy'', js ''stock split''], js ''buy''),
      ([js ''sell''], js ''sell''),
      ([js ''dividend''], js ''dividend''),
      ([js ''fee''], js ''fee'')]"

fun firstRule :: "(jsstring list \<times> jsstring) list \<Rightarrow> jsstring \<Rightarrow> jsstring option" where
  "firstRule [] label = None"
| "firstRule ((words, kind) # rules) label =
     (if list_ex (containsIgnoringCase label) words then Some kind
      else firstRule rules label)"

definition mapAction_spec :: "jsstring \<Rightarrow> jsstring" where
  "mapAction_spec label =
     (case firstRule actionRules label of None \<Rightarrow> label | Some kind \<Rightarrow> kind)"

text \<open>
  What a trace of events shows: the errors handed to the error continuation, the
  exports handed to the success continuation, and the calls of the security service.
\<close>

fun errorCalls :: "event list \<Rightarrow> jserror list" where
  "errorCalls [] = []"
| "errorCalls (ErrorCallback x # evs) = x # errorCalls evs"
| "errorCalls (ev # evs) = errorCalls evs"

fun successCalls :: "event list \<Rightarrow> GhostfolioExport list" where
  "successCalls [] = []"
| "successCalls (SuccessCallback x # evs) = x # successCalls evs"
| "successCalls (ev # evs) = successCalls evs"

fun lookupCalls :: "event list \<Rightarrow> (jsstring \<times> jsstring) list" where
  "lookupCalls [] = []"
| "lookupCalls (GetSecurity key cur # evs) = (key, cur) # lookupCalls evs"
| "lookupCalls (ev # evs) = lookupCalls evs"

text \<open>
  The classes of rows: a fee row; a row for which the security service is called (not
  ignored, not a fee); the answer of the service for the row at position \<open>idx\<close>; a
  row on which that call throws.
\<close>

definition isFee :: "RevolutRecord \<Rightarrow> bool" where
  "isFee record = (toLocaleLowerCase (RevolutRecord.type record) = js ''fee'')"

definition callsLookup :: "RevolutRecord \<Rightarrow> bool" where
  "callsLookup record = (\<not> isIgnoredRecord record \<and> \<not> isFee record)"

definition lookupOf :: "env \<Rightarrow> nat \<Rightarrow> RevolutRecord \<Rightarrow> lookup" where
  "lookupOf e idx record =
     getSecurity e idx (securityKey record) (RevolutRecord.currency record)"

definition lookupThrows :: "env \<Rightarrow> nat \<Rightarrow> RevolutRecord \<Rightarrow> bool" where
  "lookupThrows e idx record =
     (callsLookup record \<and> (case lookupOf e idx record of Throws x \<Rightarrow> True | Returns s \<Rightarrow> False))"

text \<open>
  The activity that the row at position \<open>idx\<close> contributes to the export, if any, and
  the positions of the rows of a file that contribute one, in increasing order.
\<close>

definition activityOf :: "env \<Rightarrow> nat \<Rightarrow> RevolutRecord \<Rightarrow> GhostfolioActivity option" where
  "activityOf e idx record =
     (if isIgnoredRecord record then None
      else if isFee record then Some (feeActivity e record)
      else (case lookupOf e idx record of
              Returns (Some security) \<Rightarrow> Some (securityActivity e record security)
            | Returns None \<Rightarrow> None
            | Throws x \<Rightarrow> None))"

definition producers :: "env \<Rightarrow> RevolutRecord list \<Rightarrow> nat list" where
  "producers e rs = filter (\<lambda>k. activityOf e k (rs ! k) \<noteq> None) [0..<length rs]"

definition contribution :: "env \<Rightarrow> nat \<Rightarrow> RevolutRecord \<Rightarrow> GhostfolioActivity list" where
  "contribution e idx r = (case activityOf e idx r of None \<Rightarrow> [] | Some a \<Rightarrow> [a])"

text \<open>How often the progress bar was incremented.\<close>

fun increments :: "event list \<Rightarrow> nat" where
  "increments [] = 0"
| "increments (BarIncrement # evs) = Suc (increments evs)"
| "increments (ev # evs) = increments evs"

text \<open>
  The fatal conditions of a run: the tokenizer failed, it gave no rows, or the security
  service throws on a row for which it is called.
\<close>

definition fatal :: "env \<Rightarrow> jserror option \<Rightarrow> RevolutRecord list option \<Rightarrow> bool" where
  "fatal e err records =
     (err \<noteq> None
      \<or> (case records of
            None \<Rightarrow> True
          | Some rs \<Rightarrow> rs = [] \<or> list_ex (\<lambda>k. lookupThrows e k (rs ! k)) [0..<length rs]))"

text \<open>
  The precondition of the crypto transform on the \<open>value\<close> and \<open>fees\<close> cells: the
  cell is empty, or it holds at least one digit, dot or comma.
\<close>

definition amountCellOk :: "jsstring \<Rightarrow> bool" where
  "amountCellOk cell = (cell = [] \<or> list_ex isAmountChar cell)"

subsection \<open>Sample data\<close>

text \<open>
  A security service that knows \<open>AAPL\<close> and \<open>ETH-EUR\<close>, fails on \<open>FAIL\<close> and finds
  nothing else; a parsed invest row; a raw crypto row.
\<close>

definition sampleEnv :: env where
  "sampleEnv =
     \<lparr> GHOSTFOLIO_ACCOUNT_ID = Some (js ''account''),
       now = js ''2024-05-01'',
       getSecurity =
         (\<lambda>idx key cur.
            if key = js ''AAPL'' then Returns (Some \<lparr> YahooFinanceRecord.symbol = js ''AAPL'' \<rparr>)
            else if key = js ''ETH-EUR''
              then Returns (Some \<lparr> YahooFinanceRecord.symbol = js ''ETH-EUR'' \<rparr>)
            else if key = js ''FAIL'' then Throws (Error (js ''network''))
            else Returns None),
       GhostfolioOrderType = (\<lambda>t. Some (toLocaleUpperCase t)),
       dayjsFormat = (\<lambda>d. d) \<rparr>"

definition investRow ::
  "jsstring \<Rightarrow> jsstring \<Rightarrow> jsnumber \<Rightarrow> jsnumber \<Rightarrow> jsnumber \<Rightarrow> RevolutRecord" where
  "investRow ty tick qty pps amount =
     \<lparr> RevolutRecord.date = js ''2024-04-30'',
       type = ty,
       ticker = Some tick,
       symbol = None,
       currency = js ''USD'',
       quantity = Some qty,
       pricePerShare = Some pps,
       totalAmount = Some amount,
       price = None,
       value = None,
       fees = None \<rparr>"

definition cryptoRow :: "jsstring \<Rightarrow> jsstring \<Rightarrow> jsstring \<Rightarrow> jsstring \<Rightarrow> CryptoRow" where
  "cryptoRow ty pr val fs =
     \<lparr> CryptoRow.date = js ''2024-04-30'',
       type = ty,
       symbol = js ''ETH'',
       quantity = js ''2'',
       price = pr,
       value = val,
       fees = fs \<rparr>"

text \<open>The record that \<open>on_record\<close> makes of a crypto row of type \<open>Stake\<close>.\<close>

definition stakeRecord :: RevolutRecord where
  "stakeRecord =
     \<lparr> RevolutRecord.date = js ''2024-04-30'',
       type = js ''dividend'',
       ticker = None,
       symbol = Some (js ''ETH''),
       currency = js ''EUR'',
       quantity = Some (Num 2),
       pricePerShare = None,
       totalAmount = None,
       price = Some (Num 1800),
       value = Some (Num 3600),
       fees = Some (Num 0) \<rparr>"

text \<open>
  Two files of parsed invest rows: one with an ignored row, a buy that is found, a buy
  that is not found and a fee; one where the lookup of the second row fails.
\<close>

definition sampleRows :: "RevolutRecord list" where
  "sampleRows =
     [investRow (js ''CASH TOP-UP'') [] (Num 0) (Num 0) (Num 100),
      investRow (js ''buy'') (js ''AAPL'') (Num 3) (Num 150) (Num 450),
      investRow (js ''buy'') (js ''ZZZ'') (Num 1) (Num 7) (Num 7),
      investRow (js ''fee'') [] (Num 0) (Num 0) (Num (- 2))]"

definition failingRows :: "RevolutRecord list" where
  "failingRows =
     [investRow (js ''buy'') (js ''AAPL'') (Num 3) (Num 150) (Num 450),
      investRow (js ''sell'') (js ''FAIL'') (Num 1) (Num 7) (Num 7),
      investRow (js ''fee'') [] (Num 0) (Num 0) (Num (- 2))]"

text \<open>The export of the first file: the buy that is found, then the fee.\<close>

definition sampleExport :: GhostfolioExport where
  "sampleExport =
     \<lparr> meta = \<lparr> date = js ''2024-05-01'', version = js ''v0'' \<rparr>,
       activities =
         [securityActivity sampleEnv
            (investRow (js ''buy'') (js ''AAPL'') (Num 3) (Num 150) (Num 450))
            \<lparr> YahooFinanceRecord.symbol = js ''AAPL'' \<rparr>,
          feeActivity sampleEnv (investRow (js ''fee'') [] (Num 0) (Num 0) (Num (- 2)))] \<rparr>"

section \<open>Auxiliary facts\<close>

lemma indexOf_lower_bound: "- 1 \<le> indexOf s t"
  by (induction s) (auto simp: Let_def)

lemma indexOf_sublist: "(indexOf s t > - 1) = sublist t s"
proof (induction s)
  case Nil
  then show ?case by simp
next
  case (Cons c cs)
  have "- 1 \<le> indexOf cs t" by (rule indexOf_lower_bound)
  with Cons show ?case
    by (auto simp: Let_def sublist_Cons_right)
qed

lemma replaced_scan: "replaced [] (scan p s) = filter (\<lambda>c. \<not> p c) s"
  by (induction s) (auto split: list.splits piece.splits)

lemma matches_scan_empty: "(matches (scan p s) = []) = (\<not> list_ex p s)"
  by (induction s) (auto split: list.splits piece.splits)

lemma replaceAll_filter: "replaceAll p [] s = filter (\<lambda>c. \<not> p c) s"
  by (simp add: replaceAll_def replaced_scan)

lemma replaceEach_filter: "replaceEach p [] s = filter (\<lambda>c. \<not> p c) s"
  by (induction s) (auto simp: replaceEach_def)

lemma matchAll_None: "(matchAll p s = None) = (\<not> list_ex p s)"
  using matches_scan_empty [of p s] by (auto simp: matchAll_def split: list.splits)

lemmas js_eval = js_def isWhiteSpace_def isDigit_def isAmountChar_def isDollar_def
  toLowerUnit_def toUpperUnit_def toLocaleLowerCase_def toLocaleUpperCase_def trim_def
  trimStart_def

lemma detectCurrency_refines: "detectCurrency v = detectCurrency_spec v"
  by (simp add: detectCurrency_def detectCurrency_spec_def replaceAll_filter)

lemma castAction_spec:
  "castAction label = firstRule actionRules label"
  by (simp add: castAction_def actionRules_def containsIgnoringCase_def indexOf_sublist Let_def)

lemma type_not_currency: "js ''type'' \<noteq> js ''currency''"
  by (simp add: js_def)

lemma type_not_numeric:
  "js ''type'' \<noteq> js ''quantity''" "js ''type'' \<noteq> js ''pricePerShare''"
  "js ''type'' \<noteq> js ''totalAmount''"
  by (simp_all add: js_def)

lemma cast_type: "cast (js ''type'') label = String (mapAction_spec label)"
  by (simp add: cast_def type_not_currency type_not_numeric castAction_spec mapAction_spec_def
      split: option.splits)

lemma errorCalls_append: "errorCalls (xs @ ys) = errorCalls xs @ errorCalls ys"
  by (induction xs rule: errorCalls.induct) simp_all

lemma successCalls_append: "successCalls (xs @ ys) = successCalls xs @ successCalls ys"
  by (induction xs rule: successCalls.induct) simp_all

lemma lookupCalls_append: "lookupCalls (xs @ ys) = lookupCalls xs @ lookupCalls ys"
  by (induction xs rule: lookupCalls.induct) simp_all

lemma successCalls_member: "SuccessCallback x \<in> set evs \<Longrightarrow> x \<in> set (successCalls evs)"
  by (induction evs rule: successCalls.induct) auto

lemma processRecord_ignored:
  "isIgnoredRecord r \<Longrightarrow> processRecord e idx r acts = ([BarIncrement], Continue acts)"
  by (simp add: processRecord_def)

lemma processRecord_fee:
  "\<not> isIgnoredRecord r \<Longrightarrow> isFee r \<Longrightarrow>
   processRecord e idx r acts = ([BarIncrement], Continue (acts @ [feeActivity e r]))"
  by (simp add: processRecord_def isFee_def)

lemma processRecord_throws:
  "callsLookup r \<Longrightarrow> lookupOf e idx r = Throws x \<Longrightarrow>
   processRecord e idx r acts =
     ([GetSecurity (securityKey r) (RevolutRecord.currency r),
       LogQueryError (ticker r) (idx + 2), ErrorCallback x], Return)"
  by (simp add: processRecord_def callsLookup_def isFee_def lookupOf_def)

lemma processRecord_no_match:
  "callsLookup r \<Longrightarrow> lookupOf e idx r = Returns None \<Longrightarrow>
   processRecord e idx r acts =
     ([GetSecurity (securityKey r) (RevolutRecord.currency r),
       ProgressLog (noResultNote r), BarIncrement], Continue acts)"
  by (simp add: processRecord_def callsLookup_def isFee_def lookupOf_def)

lemma processRecord_match:
  "callsLookup r \<Longrightarrow> lookupOf e idx r = Returns (Some security) \<Longrightarrow>
   processRecord e idx r acts =
     ([GetSecurity (securityKey r) (RevolutRecord.currency r), BarIncrement],
      Continue (acts @ [securityActivity e r security]))"
  by (simp add: processRecord_def callsLookup_def isFee_def lookupOf_def)

text \<open>Every turn either returns after one error call, or continues with the activity of the row appended.\<close>

lemma processRecord_cases:
  "(lookupThrows e idx r \<and>
      (\<exists>pre x. processRecord e idx r acts = (pre @ [ErrorCallback x], Return)
          \<and> errorCalls pre = [] \<and> successCalls pre = []))
   \<or> (\<not> lookupThrows e idx r \<and>
      (\<exists>evs. processRecord e idx r acts =
          (evs, Continue (acts @ (case activityOf e idx r of None \<Rightarrow> [] | Some a \<Rightarrow> [a])))
          \<and> errorCalls evs = [] \<and> successCalls evs = []))"
proof (cases "callsLookup r")
  case False
  then show ?thesis
    by (auto simp: callsLookup_def lookupThrows_def activityOf_def processRecord_ignored
        processRecord_fee)
next
  case True
  show ?thesis
  proof (cases "lookupOf e idx r")
    case (Throws x)
    with True have "lookupThrows e idx r" by (simp add: lookupThrows_def)
    moreover have "processRecord e idx r acts =
       ([GetSecurity (securityKey r) (RevolutRecord.currency r),
         LogQueryError (ticker r) (idx + 2)] @ [ErrorCallback x], Return)"
      using processRecord_throws [OF True Throws] by simp
    ultimately show ?thesis by (intro disjI1 conjI exI) (assumption, assumption, simp_all)
  next
    case (Returns s)
    with True have n: "\<not> lookupThrows e idx r" by (simp add: lookupThrows_def)
    show ?thesis
    proof (cases s)
      case None
      with True Returns n show ?thesis
        using processRecord_no_match [of r e idx acts]
        by (auto simp: activityOf_def callsLookup_def)
    next
      case (Some security)
      with True Returns n show ?thesis
        using processRecord_match [of r e idx security acts]
        by (auto simp: activityOf_def callsLookup_def)
    qed
  qed
qed

lemma forLoop_outcome:
  "forLoop e idx rs acts = (evs, res) \<Longrightarrow>
   ((\<exists>k<length rs. lookupThrows e (idx + k) (rs ! k)) \<and> res = None
      \<and> (\<exists>pre x. evs = pre @ [ErrorCallback x] \<and> errorCalls pre = [] \<and> successCalls pre = []))
   \<or> ((\<forall>k<length rs. \<not> lookupThrows e (idx + k) (rs ! k))
      \<and> res = Some (acts @ concat (map (\<lambda>k. contribution e (idx + k) (rs ! k)) [0..<length rs]))
      \<and> errorCalls evs = [] \<and> successCalls evs = [])"
proof (induction rs arbitrary: idx acts evs res)
  case Nil
  then show ?case by simp
next
  case (Cons r rs)
  from processRecord_cases [of e idx r acts]
  show ?case
  proof (elim disjE conjE exE)
    fix pre x
    assume t: "lookupThrows e idx r"
      and p: "processRecord e idx r acts = (pre @ [ErrorCallback x], Return)"
      and c: "errorCalls pre = []" "successCalls pre = []"
    from Cons.prems p have "evs = pre @ [ErrorCallback x]" "res = None" by simp_all
    moreover from t have "\<exists>k<length (r # rs). lookupThrows e (idx + k) ((r # rs) ! k)"
      by (intro exI [of _ 0]) simp
    ultimately show ?thesis using c by blast
  next
    fix evs0
    assume t: "\<not> lookupThrows e idx r"
      and p: "processRecord e idx r acts =
                (evs0, Continue (acts @ (case activityOf e idx r of None \<Rightarrow> [] | Some a \<Rightarrow> [a])))"
      and c: "errorCalls evs0 = []" "successCalls evs0 = []"
    let ?acts = "acts @ contribution e idx r"
    obtain evs1 res1 where l: "forLoop e (Suc idx) rs ?acts = (evs1, res1)"
      by (cases "forLoop e (Suc idx) rs ?acts") blast
    from Cons.prems p l have e: "evs = evs0 @ evs1" "res = res1"
      by (simp_all add: contribution_def)
    have up: "[0..<length (r # rs)] = 0 # map Suc [0..<length rs]"
      by (simp add: upt_conv_Cons map_Suc_upt del: upt_Suc)
    from Cons.IH [OF l] show ?thesis
    proof (elim disjE conjE exE)
      fix k pre x
      assume "k < length rs" "lookupThrows e (Suc idx + k) (rs ! k)" "res1 = None"
        "evs1 = pre @ [ErrorCallback x]" "errorCalls pre = []" "successCalls pre = []"
      then have "\<exists>k<length (r # rs). lookupThrows e (idx + k) ((r # rs) ! k)"
        "res = None" "evs = (evs0 @ pre) @ [ErrorCallback x]"
        "errorCalls (evs0 @ pre) = []" "successCalls (evs0 @ pre) = []"
        using e c by (auto simp: errorCalls_append successCalls_append intro: exI [of _ "Suc k"])
      then show ?thesis by blast
    next
      assume a: "\<forall>k<length rs. \<not> lookupThrows e (Suc idx + k) (rs ! k)"
        and r: "res1 = Some (?acts @ concat (map (\<lambda>k. contribution e (Suc idx + k) (rs ! k)) [0..<length rs]))"
        and c1: "errorCalls evs1 = []" "successCalls evs1 = []"
      have "\<forall>k<length (r # rs). \<not> lookupThrows e (idx + k) ((r # rs) ! k)"
      proof (intro allI impI)
        fix k assume "k < length (r # rs)"
        then show "\<not> lookupThrows e (idx + k) ((r # rs) ! k)"
          using t a by (cases k) auto
      qed
      moreover have "res = Some (acts @ concat (map (\<lambda>k. contribution e (idx + k) ((r # rs) ! k)) [0..<length (r # rs)]))"
        unfolding up using e r by (simp add: comp_def)
      moreover have "errorCalls evs = []" "successCalls evs = []"
        using e c c1 by (simp_all add: errorCalls_append successCalls_append)
      ultimately show ?thesis by blast
    qed
  qed
qed

lemma concat_contributions:
  "concat (map (\<lambda>k. contribution e k (rs ! k)) ks) =
   map (\<lambda>k. the (activityOf e k (rs ! k))) (filter (\<lambda>k. activityOf e k (rs ! k) \<noteq> None) ks)"
  by (induction ks) (auto simp: contribution_def)

lemma firstRule_kinds:
  "firstRule actionRules label = Some kind \<Longrightarrow>
   kind = js ''buy'' \<or> kind = js ''sell'' \<or> kind = js ''dividend'' \<or> kind = js ''fee''"
  by (simp add: actionRules_def split: if_splits)

lemma mapAction_canonical:
  "mapAction_spec (js ''buy'') = js ''buy''"
  "mapAction_spec (js ''sell'') = js ''sell''"
  "mapAction_spec (js ''dividend'') = js ''dividend''"
  "mapAction_spec (js ''fee'') = js ''fee''"
  by (simp_all add: mapAction_spec_def actionRules_def containsIgnoringCase_def js_eval
      sublist_code)

lemma mapAction_idempotent: "mapAction_spec (mapAction_spec label) = mapAction_spec label"
proof (cases "firstRule actionRules label")
  case None
  then show ?thesis by (simp add: mapAction_spec_def)
next
  case (Some kind)
  then have "mapAction_spec label = kind" by (simp add: mapAction_spec_def)
  with firstRule_kinds [OF Some] show ?thesis by (auto simp: mapAction_canonical)
qed

lemmas parse_eval = parseFloat_def signOf_def exponentPart_def scale10_def digitsValue_def
  replaceEach_def overflows_def underflows_def

lemma numeric_columns:
  "column = js ''quantity'' \<or> column = js ''pricePerShare'' \<or> column = js ''totalAmount'' \<Longrightarrow>
   column \<noteq> js ''currency'' \<and> column \<noteq> js ''type''"
  by (auto simp: js_def)

lemma cast_numeric:
  "column = js ''quantity'' \<or> column = js ''pricePerShare'' \<or> column = js ''totalAmount'' \<Longrightarrow>
   cast column v =
     Number (if v = [] then Num 0 else parseFloat (trim (filter (\<lambda>c. c \<noteq> 0x24) v)))"
  using numeric_columns [of column]
  by (simp add: cast_def replaceEach_filter isDollar_def)

lemma parse_samples:
  "parseFloat (trim (filter (\<lambda>c. c \<noteq> 0x24) (js ''$12.50''))) = Num (25 / 2)"
  "parseFloat (trim (filter (\<lambda>c. c \<noteq> 0x24) (js ''$1,234.5''))) = Num 1"
  by (simp_all add: parse_eval js_eval)

lemma matchAll_Some:
  "list_ex p s \<Longrightarrow> \<exists>m ms. matchAll p s = Some (m # ms)"
  using matches_scan_empty [of p s] by (auto simp: matchAll_def split: list.splits)

lemma amountOf_ok: "amountCellOk cell \<Longrightarrow> \<exists>n. amountOf cell = Inr n"
proof (cases "cell = []")
  case True
  then show ?thesis by (simp add: amountOf_def)
next
  case False
  assume "amountCellOk cell"
  with False have "list_ex isAmountChar cell" by (simp add: amountCellOk_def)
  from matchAll_Some [OF this] False show ?thesis
    by (auto simp: amountOf_def firstMatch_def)
qed

lemma amountOf_throws:
  "\<not> amountCellOk cell \<Longrightarrow>
   matchAll isAmountChar cell = None
   \<and> amountOf cell = Inl (TypeError (js ''Cannot read properties of null''))"
proof -
  assume "\<not> amountCellOk cell"
  then have c: "cell \<noteq> []" and "\<not> list_ex isAmountChar cell"
    by (simp_all add: amountCellOk_def)
  then have "matchAll isAmountChar cell = None" by (simp add: matchAll_None)
  with c show ?thesis by (simp add: amountOf_def firstMatch_def)
qed

lemma priceOf_total: "\<exists>n. priceOf s = Inr n"
proof (cases "matchAll isAmountChar s")
  case None
  then show ?thesis by (simp add: priceOf_def firstMatch_def)
next
  case (Some ms)
  then have "ms \<noteq> []" by (auto simp: matchAll_def split: list.splits)
  with Some show ?thesis by (cases ms) (simp_all add: priceOf_def firstMatch_def)
qed

lemma on_record_total:
  "amountCellOk (CryptoRow.value row) \<Longrightarrow> amountCellOk (CryptoRow.fees row) \<Longrightarrow>
   \<exists>r. on_record row = Inr r"
  using priceOf_total [of "CryptoRow.price row"] amountOf_ok [of "CryptoRow.value row"]
    amountOf_ok [of "CryptoRow.fees row"]
  by (auto simp: on_record_def Let_def)

lemma on_record_throws:
  assumes "\<not> amountCellOk (CryptoRow.value row) \<or> \<not> amountCellOk (CryptoRow.fees row)"
  shows "\<exists>m. on_record row = Inl (TypeError m)"
proof -
  obtain n where p: "priceOf (CryptoRow.price row) = Inr n"
    using priceOf_total by blast
  show ?thesis
  proof (cases "amountCellOk (CryptoRow.value row)")
    case False
    from amountOf_throws [OF False] p show ?thesis
      by (simp add: on_record_def Let_def)
  next
    case True
    then obtain v where v: "amountOf (CryptoRow.value row) = Inr v"
      using amountOf_ok by blast
    from True assms have "\<not> amountCellOk (CryptoRow.fees row)" by simp
    from amountOf_throws [OF this] p v show ?thesis
      by (simp add: on_record_def Let_def)
  qed
qed

lemmas crypto_eval = on_record_def priceOf_def amountOf_def firstMatch_def matchAll_def
  detectCurrency_def replaceAll_def cryptoRow_def

lemma isIgnoredRecord_contains:
  "isIgnoredRecord r = list_ex (containsIgnoringCase (RevolutRecord.type r)) ignoredRecordTypes"
  by (simp add: isIgnoredRecord_def containsIgnoringCase_def indexOf_sublist
      ignoredRecordTypes_def)

lemmas ignored_eval = isIgnoredRecord_contains ignoredRecordTypes_def containsIgnoringCase_def
  sublist_code investRow_def isFee_def

lemma revolut_fee: "js ''Revolut '' @ js ''fee'' = js ''Revolut fee''"
  by (simp add: js_def)

lemma kinds_distinct:
  "js ''buy'' \<noteq> js ''dividend''" "js ''sell'' \<noteq> js ''dividend''"
  by (simp_all add: js_def)

lemma forLoop_Cons_continue:
  "processRecord e idx r acts = (evs, Continue acts') \<Longrightarrow>
   forLoop e idx (r # rs) acts =
     (evs @ fst (forLoop e (Suc idx) rs acts'), snd (forLoop e (Suc idx) rs acts'))"
  by (simp split: prod.splits)

lemmas record_eval = processRecord_def securityActivity_def feeActivity_def securityKey_def
  sampleEnv_def nullish_def template_def

lemma forLoop_ignored:
  "isIgnoredRecord r \<Longrightarrow>
   forLoop e idx (r # rs) acts =
     (BarIncrement # fst (forLoop e (Suc idx) rs acts), snd (forLoop e (Suc idx) rs acts))"
  by (simp add: processRecord_ignored split: prod.splits)

lemma list_ex_upt: "list_ex P [0..<n] = (\<exists>k<n. P k)"
  by (auto simp: list_ex_iff)

lemma forLoop_no_match:
  "callsLookup r \<Longrightarrow> lookupOf e idx r = Returns None \<Longrightarrow>
   forLoop e idx (r # rs) acts =
     ([GetSecurity (securityKey r) (RevolutRecord.currency r), ProgressLog (noResultNote r),
       BarIncrement] @ fst (forLoop e (Suc idx) rs acts),
      snd (forLoop e (Suc idx) rs acts))"
  by (simp add: processRecord_no_match split: prod.splits)

lemma processRevolutFile_parsing_failed:
  "err \<noteq> None \<or> records = None \<or> records = Some [] \<Longrightarrow>
   processRevolutFile e err records = [ErrorCallback (parsingError err)]"
  by (auto simp: processRevolutFile_def parsingFailed_def)

lemma processRevolutFile_rows:
  "rs \<noteq> [] \<Longrightarrow>
   processRevolutFile e None (Some rs) =
     [ConsoleLog (js ''[i] Read CSV file. Start processing..''), BarCreate (length rs) 0]
     @ (case forLoop e 0 rs [] of
          (evs, None) \<Rightarrow> evs
        | (evs, Some acts) \<Rightarrow>
            evs @ [ProgressStop,
                   SuccessCallback \<lparr> meta = \<lparr> date = now e, version = js ''v0'' \<rparr>,
                                      activities = acts \<rparr>])"
  by (simp add: processRevolutFile_def parsingFailed_def)

lemma processRevolutFile_fatal:
  assumes "fatal e err records"
  shows "\<exists>pre x. processRevolutFile e err records = pre @ [ErrorCallback x]
           \<and> errorCalls pre = [] \<and> successCalls pre = []"
proof (cases "err \<noteq> None \<or> records = None \<or> records = Some []")
  case True
  from processRevolutFile_parsing_failed [OF True]
  have "processRevolutFile e err records = [] @ [ErrorCallback (parsingError err)]" by simp
  then show ?thesis by (intro exI conjI) (assumption, simp_all)
next
  case False
  then obtain rs where r: "err = None" "records = Some rs" "rs \<noteq> []" by auto
  with assms have t: "\<exists>k<length rs. lookupThrows e (0 + k) (rs ! k)"
    by (simp add: fatal_def list_ex_upt)
  obtain evs res where l: "forLoop e 0 rs [] = (evs, res)" by (cases "forLoop e 0 rs []") blast
  from forLoop_outcome [OF l] t obtain pre x where
    "res = None" "evs = pre @ [ErrorCallback x]" "errorCalls pre = []" "successCalls pre = []"
    by blast
  with r l have "processRevolutFile e err records =
      ([ConsoleLog (js ''[i] Read CSV file. Start processing..''), BarCreate (length rs) 0] @ pre)
      @ [ErrorCallback x]"
    "errorCalls ([ConsoleLog (js ''[i] Read CSV file. Start processing..''),
        BarCreate (length rs) 0] @ pre) = []"
    "successCalls ([ConsoleLog (js ''[i] Read CSV file. Start processing..''),
        BarCreate (length rs) 0] @ pre) = []"
    by (simp_all add: processRevolutFile_rows)
  then show ?thesis by blast
qed

lemma processRevolutFile_success:
  assumes "\<not> fatal e err records"
  shows "\<exists>rs pre. records = Some rs
           \<and> processRevolutFile e err records =
               pre @ [SuccessCallback
                        \<lparr> meta = \<lparr> date = now e, version = js ''v0'' \<rparr>,
                          activities = concat (map (\<lambda>k. contribution e k (rs ! k)) [0..<length rs]) \<rparr>]
           \<and> errorCalls pre = [] \<and> successCalls pre = []"
proof -
  from assms obtain rs where r: "err = None" "records = Some rs" "rs \<noteq> []"
    by (auto simp: fatal_def split: option.splits)
  with assms have t: "\<not> (\<exists>k<length rs. lookupThrows e (0 + k) (rs ! k))"
    by (simp add: fatal_def list_ex_upt)
  obtain evs res where l: "forLoop e 0 rs [] = (evs, res)" by (cases "forLoop e 0 rs []") blast
  from forLoop_outcome [OF l] t have o:
    "res = Some ([] @ concat (map (\<lambda>k. contribution e (0 + k) (rs ! k)) [0..<length rs]))"
    "errorCalls evs = []" "successCalls evs = []"
    by blast+
  let ?pre = "[ConsoleLog (js ''[i] Read CSV file. Start processing..''), BarCreate (length rs) 0]
      @ evs @ [ProgressStop]"
  from r l o have "processRevolutFile e err records =
      ?pre @ [SuccessCallback
                \<lparr> meta = \<lparr> date = now e, version = js ''v0'' \<rparr>,
                  activities = concat (map (\<lambda>k. contribution e k (rs ! k)) [0..<length rs]) \<rparr>]"
    by (simp add: processRevolutFile_rows)
  moreover from o have "errorCalls ?pre = []" "successCalls ?pre = []"
    by (simp_all add: errorCalls_append successCalls_append)
  ultimately show ?thesis using r by blast
qed

lemmas run_eval = lookupThrows_def callsLookup_def lookupOf_def securityKey_def sampleEnv_def
  activityOf_def

lemma sample_ignored:
  "isIgnoredRecord (investRow (js ''CASH TOP-UP'') [] (Num 0) (Num 0) (Num 100))"
  "\<not> isIgnoredRecord (investRow (js ''buy'') t q p a)"
  "\<not> isIgnoredRecord (investRow (js ''sell'') t q p a)"
  "\<not> isIgnoredRecord (investRow (js ''fee'') t q p a)"
  by (simp_all add: ignored_eval js_eval)

lemma sample_fee:
  "\<not> isFee (investRow (js ''buy'') t q p a)"
  "\<not> isFee (investRow (js ''sell'') t q p a)"
  "isFee (investRow (js ''fee'') t q p a)"
  by (simp_all add: isFee_def investRow_def js_eval)

lemma sample_lookup:
  "lookupOf sampleEnv k (investRow ty (js ''AAPL'') q p a)
     = Returns (Some \<lparr> YahooFinanceRecord.symbol = js ''AAPL'' \<rparr>)"
  "lookupOf sampleEnv k (investRow ty (js ''ZZZ'') q p a) = Returns None"
  "lookupOf sampleEnv k (investRow ty (js ''FAIL'') q p a) = Throws (Error (js ''network''))"
  by (simp_all add: lookupOf_def securityKey_def sampleEnv_def investRow_def js_def)

lemma sample_fatal:
  "fatal sampleEnv None (Some failingRows)"
  "\<not> fatal sampleEnv None (Some sampleRows)"
  by (simp_all add: fatal_def failingRows_def sampleRows_def lookupThrows_def callsLookup_def
      sample_ignored sample_fee sample_lookup)

lemma producers_sorted: "sorted_wrt (<) (producers e rs)"
  by (simp add: producers_def sorted_wrt_filter)

lemma sorted_wrt_less_nth_iff:
  assumes "sorted_wrt (<) (xs :: nat list)" and "i < length xs" and "j < length xs"
  shows "(i < j) = (xs ! i < xs ! j)"
proof
  assume "i < j"
  with assms show "xs ! i < xs ! j" by (simp add: sorted_wrt_nth_less)
next
  assume l: "xs ! i < xs ! j"
  show "i < j"
  proof (rule ccontr)
    assume "\<not> i < j"
    then have "j = i \<or> j < i" by arith
    then show False
    proof
      assume "j = i"
      with l show False by simp
    next
      assume "j < i"
      with assms have "xs ! j < xs ! i" by (simp add: sorted_wrt_nth_less)
      with l show False by simp
    qed
  qed
qed

lemma success_activities:
  assumes "SuccessCallback x \<in> set (processRevolutFile e err (Some rs))"
  shows "activities x = map (\<lambda>k. the (activityOf e k (rs ! k))) (producers e rs)"
proof (cases "fatal e err (Some rs)")
  case True
  from processRevolutFile_fatal [OF True] obtain pre y where
    p: "processRevolutFile e err (Some rs) = pre @ [ErrorCallback y]" "successCalls pre = []"
    by blast
  from successCalls_member [OF assms] p show ?thesis
    by (simp add: successCalls_append)
next
  case False
  from processRevolutFile_success [OF False] obtain pre where
    p: "processRevolutFile e err (Some rs) =
          pre @ [SuccessCallback
                   \<lparr> meta = \<lparr> date = now e, version = js ''v0'' \<rparr>,
                     activities = concat (map (\<lambda>k. contribution e k (rs ! k)) [0..<length rs]) \<rparr>]"
      "successCalls pre = []"
    by auto
  from successCalls_member [OF assms] p
  have "x = \<lparr> meta = \<lparr> date = now e, version = js ''v0'' \<rparr>,
              activities = concat (map (\<lambda>k. contribution e k (rs ! k)) [0..<length rs]) \<rparr>"
    by (simp add: successCalls_append)
  then show ?thesis by (simp add: concat_contributions producers_def)
qed

lemma sample_key:
  "securityKey (investRow ty t q p a) = t"
  "RevolutRecord.currency (investRow ty t q p a) = js ''USD''"
  by (simp_all add: securityKey_def investRow_def)

lemma sample_now: "now sampleEnv = js ''2024-05-01''"
  by (simp add: sampleEnv_def)

lemma sample_run:
  "processRevolutFile sampleEnv None (Some sampleRows) =
     [ConsoleLog (js ''[i] Read CSV file. Start processing..''), BarCreate 4 0,
      BarIncrement,
      GetSecurity (js ''AAPL'') (js ''USD''), BarIncrement,
      GetSecurity (js ''ZZZ'') (js ''USD''),
      ProgressLog (noResultNote (investRow (js ''buy'') (js ''ZZZ'') (Num 1) (Num 7) (Num 7))),
      BarIncrement,
      BarIncrement,
      ProgressStop,
      SuccessCallback sampleExport]"
  by (simp add: processRevolutFile_rows sampleRows_def sampleExport_def sample_now
      processRecord_ignored processRecord_fee processRecord_match processRecord_no_match
      callsLookup_def sample_ignored sample_fee sample_lookup sample_key)

lemma sample_producers: "producers sampleEnv sampleRows = [1, 3]"
  by (simp add: producers_def sampleRows_def activityOf_def sample_ignored sample_fee
      sample_lookup)

lemma increments_append: "increments (xs @ ys) = increments xs + increments ys"
  by (induction xs rule: increments.induct) simp_all

lemma processRecord_increments:
  "processRecord e idx r acts = (evs, Continue acts') \<Longrightarrow> increments evs = 1"
  by (auto simp: processRecord_def split: if_splits lookup.splits option.splits)

lemma forLoop_increments:
  "forLoop e idx rs acts = (evs, Some acts') \<Longrightarrow> increments evs = length rs"
proof (induction rs arbitrary: idx acts evs)
  case Nil
  then show ?case by simp
next
  case (Cons r rs)
  obtain evs0 st where p: "processRecord e idx r acts = (evs0, st)"
    by (cases "processRecord e idx r acts") blast
  show ?case
  proof (cases st)
    case Return
    with p Cons.prems show ?thesis by simp
  next
    case (Continue acts0)
    obtain evs1 res where l: "forLoop e (Suc idx) rs acts0 = (evs1, res)"
      by (cases "forLoop e (Suc idx) rs acts0") blast
    with p Continue Cons.prems have "evs = evs0 @ evs1" "res = Some acts'" by simp_all
    with l Cons.IH [of "Suc idx" acts0 evs1] processRecord_increments [of e idx r acts evs0 acts0]
      p Continue
    show ?thesis by (simp add: increments_append)
  qed
qed

lemma canonical_not_ignored:
  "RevolutRecord.type r = js ''buy'' \<or> RevolutRecord.type r = js ''sell''
     \<or> RevolutRecord.type r = js ''dividend'' \<Longrightarrow> \<not> isIgnoredRecord r"
  by (auto simp: isIgnoredRecord_contains ignoredRecordTypes_def containsIgnoringCase_def
      sublist_code js_eval)

lemma on_record_type:
  "on_record row = Inr r \<Longrightarrow>
   RevolutRecord.type r = js ''buy'' \<or> RevolutRecord.type r = js ''sell''
     \<or> RevolutRecord.type r = js ''dividend''"
  by (auto simp: on_record_def Let_def split: sum.splits if_splits)

lemma on_record_stake:
  "on_record (cryptoRow (js ''Stake'') (0x20AC # js ''1,800'') (0x20AC # js ''3,600'') [])
     = Inr stakeRecord"
  by (simp add: crypto_eval parse_eval js_eval stakeRecord_def)

lemma currency_column:
  "js ''currency'' \<noteq> js ''type''" "js ''currency'' \<noteq> js ''quantity''"
  "js ''currency'' \<noteq> js ''pricePerShare''" "js ''currency'' \<noteq> js ''totalAmount''"
  by (simp_all add: js_def)

lemma parseFloat_range_samples:
  "parseFloat (js ''1e309'') = PosInfinity"
  "parseFloat (js ''-1e-400'') = NegZero"
  "parseFloat (js ''1e308'') = Num (10 ^ 308)"
  by (simp_all add: parse_eval js_eval)

lemma kelvin_sign_lowercased: "isIgnoredRecord (investRow (js ''STA'' @ [0x212A] @ js ''E'') [] (Num 0) (Num 0) (Num 0))"
  by (simp add: ignored_eval js_eval)

lemma long_s_uppercased: "detectCurrency (js ''100 '' @ [0x017F] @ js ''ek'') = js ''SEK''"
  by (simp add: detectCurrency_refines detectCurrency_spec_def js_eval)

lemma kind_not_ignored:
  "RevolutRecord.type r = js ''buy'' \<or> RevolutRecord.type r = js ''sell''
     \<or> RevolutRecord.type r = js ''dividend'' \<or> RevolutRecord.type r = js ''fee''
   \<Longrightarrow> isIgnoredRecord r = False"
  by (auto simp: isIgnoredRecord_contains ignoredRecordTypes_def containsIgnoringCase_def
      sublist_code js_eval)

lemma amountOf_sample:
  "amountOf (js ''$1,234.5'') = Inr (Num (2469 / 2))"
  "amountOf (0x20AC # js ''12.50'') = Inr (Num (25 / 2))"
  by (simp_all add: crypto_eval parse_eval js_eval)

lemma cast_euro:
  "parseFloat (trim (filter (\<lambda>c. c \<noteq> 0x24) (0x20AC # js ''12.50''))) = NaN"
  by (simp add: parse_eval js_eval)

section \<open>The claims\<close>

text \<open>
  C1. A fatal condition (the tokenizer failed, it gave no rows, or the security service
  throws on a row for which it is called) ends the run with the error continuation:
  it is called once, as the last event, the success continuation is not called, and so
  no export is handed over. A parse failure does nothing else at all. Without a fatal
  condition the run ends with the success continuation, called once, and the error
  continuation is not called. An ignored row and a row whose lookup finds nothing do
  not end the run: the loop goes on with the next row.
\<close>

theorem C1_fatal_conditions:
  "(fatal e err records \<longrightarrow>
      (\<exists>pre x. processRevolutFile e err records = pre @ [ErrorCallback x]
         \<and> errorCalls pre = [] \<and> successCalls pre = []))
   \<and> (err \<noteq> None \<or> records = None \<or> records = Some [] \<longrightarrow>
      processRevolutFile e err records = [ErrorCallback (parsingError err)])
   \<and> (\<not> fatal e err records \<longrightarrow>
      (\<exists>pre x. processRevolutFile e err records = pre @ [SuccessCallback x]
         \<and> errorCalls pre = [] \<and> successCalls pre = []))
   \<and> (isIgnoredRecord r \<longrightarrow>
      forLoop e idx (r # rs) acts =
        (BarIncrement # fst (forLoop e (Suc idx) rs acts), snd (forLoop e (Suc idx) rs acts)))
   \<and> (callsLookup r \<and> lookupOf e idx r = Returns None \<longrightarrow>
      forLoop e idx (r # rs) acts =
        ([GetSecurity (securityKey r) (RevolutRecord.currency r), ProgressLog (noResultNote r),
          BarIncrement] @ fst (forLoop e (Suc idx) rs acts),
         snd (forLoop e (Suc idx) rs acts)))"
proof (intro conjI impI)
  assume "fatal e err records"
  then show "\<exists>pre x. processRevolutFile e err records = pre @ [ErrorCallback x]
         \<and> errorCalls pre = [] \<and> successCalls pre = []"
    by (rule processRevolutFile_fatal)
next
  assume "err \<noteq> None \<or> records = None \<or> records = Some []"
  then show "processRevolutFile e err records = [ErrorCallback (parsingError err)]"
    by (rule processRevolutFile_parsing_failed)
next
  assume "\<not> fatal e err records"
  from processRevolutFile_success [OF this]
  show "\<exists>pre x. processRevolutFile e err records = pre @ [SuccessCallback x]
         \<and> errorCalls pre = [] \<and> successCalls pre = []"
    by blast
next
  assume "isIgnoredRecord r"
  then show "forLoop e idx (r # rs) acts =
        (BarIncrement # fst (forLoop e (Suc idx) rs acts), snd (forLoop e (Suc idx) rs acts))"
    by (rule forLoop_ignored)
next
  assume "callsLookup r \<and> lookupOf e idx r = Returns None"
  then show "forLoop e idx (r # rs) acts =
        ([GetSecurity (securityKey r) (RevolutRecord.currency r), ProgressLog (noResultNote r),
          BarIncrement] @ fst (forLoop e (Suc idx) rs acts),
         snd (forLoop e (Suc idx) rs acts))"
    using forLoop_no_match [of r e idx rs acts] by blast
qed

theorem C1_fatal_conditions_witness:
  "(\<exists>pre x. processRevolutFile sampleEnv None (Some failingRows) = pre @ [ErrorCallback x]
       \<and> errorCalls pre = [] \<and> successCalls pre = [])
   \<and> processRevolutFile sampleEnv (Some (Error (js ''bad csv''))) None
       = [ErrorCallback (Error (js ''An error ocurred while parsing! Details: bad csv''))]
   \<and> processRevolutFile sampleEnv None (Some [])
       = [ErrorCallback (Error (js ''An error ocurred while parsing!''))]
   \<and> (\<exists>pre x. processRevolutFile sampleEnv None (Some sampleRows) = pre @ [SuccessCallback x]
       \<and> errorCalls pre = [] \<and> successCalls pre = [])
   \<and> forLoop sampleEnv 0 sampleRows [] =
       (BarIncrement # fst (forLoop sampleEnv 1 (tl sampleRows) []),
        snd (forLoop sampleEnv 1 (tl sampleRows) []))
   \<and> forLoop sampleEnv 2 (drop 2 sampleRows) [] =
       ([GetSecurity (js ''ZZZ'') (js ''USD''),
         ProgressLog (noResultNote (investRow (js ''buy'') (js ''ZZZ'') (Num 1) (Num 7) (Num 7))),
         BarIncrement] @ fst (forLoop sampleEnv 3 (drop 3 sampleRows) []),
        snd (forLoop sampleEnv 3 (drop 3 sampleRows) []))"
proof -
  let ?top = "investRow (js ''CASH TOP-UP'') [] (Num 0) (Num 0) (Num 100)"
  let ?zzz = "investRow (js ''buy'') (js ''ZZZ'') (Num 1) (Num 7) (Num 7)"
  note c1 = C1_fatal_conditions [of sampleEnv None "Some failingRows" ?top 0 "tl sampleRows" "[]"]
  note c2 = C1_fatal_conditions [of sampleEnv "Some (Error (js ''bad csv''))" None]
  note c3 = C1_fatal_conditions [of sampleEnv None "Some []"]
  note c4 = C1_fatal_conditions [of sampleEnv None "Some sampleRows" ?zzz 2 "drop 3 sampleRows" "[]"]
  have m: "parsingError (Some (Error (js ''bad csv'')))
      = Error (js ''An error ocurred while parsing! Details: bad csv'')"
    "parsingError None = Error (js ''An error ocurred while parsing!'')"
    by (simp_all add: parsingError_def js_def)
  have z: "callsLookup ?zzz \<and> lookupOf sampleEnv 2 ?zzz = Returns None"
    by (simp add: callsLookup_def sample_ignored sample_fee sample_lookup)
  have s: "?top # tl sampleRows = sampleRows" "?zzz # drop 3 sampleRows = drop 2 sampleRows"
    by (simp_all add: sampleRows_def)
  have k: "securityKey ?zzz = js ''ZZZ''" "RevolutRecord.currency ?zzz = js ''USD''"
    by (rule sample_key)+
  have n: "Suc 0 = 1" "Suc 2 = 3" by simp_all
  have a: "\<exists>pre x. processRevolutFile sampleEnv None (Some failingRows) = pre @ [ErrorCallback x]
       \<and> errorCalls pre = [] \<and> successCalls pre = []"
    by (rule c1 [THEN conjunct1, rule_format, OF sample_fatal(1)])
  have "processRevolutFile sampleEnv (Some (Error (js ''bad csv''))) None
       = [ErrorCallback (parsingError (Some (Error (js ''bad csv''))))]"
    by (rule c2 [THEN conjunct2, THEN conjunct1, rule_format]) simp
  then have b: "processRevolutFile sampleEnv (Some (Error (js ''bad csv''))) None
       = [ErrorCallback (Error (js ''An error ocurred while parsing! Details: bad csv''))]"
    by (simp only: m)
  have "processRevolutFile sampleEnv None (Some []) = [ErrorCallback (parsingError None)]"
    by (rule c3 [THEN conjunct2, THEN conjunct1, rule_format]) simp
  then have c: "processRevolutFile sampleEnv None (Some [])
       = [ErrorCallback (Error (js ''An error ocurred while parsing!''))]"
    by (simp only: m)
  have d: "\<exists>pre x. processRevolutFile sampleEnv None (Some sampleRows) = pre @ [SuccessCallback x]
       \<and> errorCalls pre = [] \<and> successCalls pre = []"
    by (rule c4 [THEN conjunct2, THEN conjunct2, THEN conjunct1, rule_format, OF sample_fatal(2)])
  have f: "forLoop sampleEnv 0 sampleRows [] =
       (BarIncrement # fst (forLoop sampleEnv 1 (tl sampleRows) []),
        snd (forLoop sampleEnv 1 (tl sampleRows) []))"
    using c1 [THEN conjunct2, THEN conjunct2, THEN conjunct2, THEN conjunct1, rule_format,
        OF sample_ignored(1)]
    unfolding s n .
  have g: "forLoop sampleEnv 2 (drop 2 sampleRows) [] =
       ([GetSecurity (js ''ZZZ'') (js ''USD''), ProgressLog (noResultNote ?zzz),
         BarIncrement] @ fst (forLoop sampleEnv 3 (drop 3 sampleRows) []),
        snd (forLoop sampleEnv 3 (drop 3 sampleRows) []))"
    using c4 [THEN conjunct2, THEN conjunct2, THEN conjunct2, THEN conjunct2, rule_format, OF z]
    unfolding s k n .
  from a b c d f g show ?thesis by (intro conjI)
qed

text \<open>
  C2. A row that is not ignored and whose type is \<open>fee\<close> appends exactly one activity,
  with quantity 1, unit price 0, the absolute total amount as fee, data source
  \<open>MANUAL\<close>, and \<open>Revolut fee\<close> as symbol and comment; the security service is not
  called, and the loop goes on with the next row.
\<close>

theorem C2_fee_row:
  assumes "\<not> isIgnoredRecord r" and "toLocaleLowerCase (RevolutRecord.type r) = js ''fee''"
  shows "\<exists>a. processRecord e idx r acts = ([BarIncrement], Continue (acts @ [a]))
           \<and> GhostfolioActivity.quantity a = Some (Num 1)
           \<and> unitPrice a = Some (Num 0)
           \<and> fee a = Math_abs (totalAmount r)
           \<and> dataSource a = js ''MANUAL''
           \<and> GhostfolioActivity.symbol a = js ''Revolut fee''
           \<and> comment a = js ''Revolut fee''
           \<and> lookupCalls (fst (processRecord e idx r acts)) = []
           \<and> forLoop e idx (r # rs) acts =
               (BarIncrement # fst (forLoop e (Suc idx) rs (acts @ [a])),
                snd (forLoop e (Suc idx) rs (acts @ [a])))"
proof -
  from assms have p: "processRecord e idx r acts =
      ([BarIncrement], Continue (acts @ [feeActivity e r]))"
    by (simp add: processRecord_fee isFee_def)
  from assms(2) have f: "GhostfolioActivity.quantity (feeActivity e r) = Some (Num 1)"
    "unitPrice (feeActivity e r) = Some (Num 0)"
    "fee (feeActivity e r) = Math_abs (totalAmount r)"
    "dataSource (feeActivity e r) = js ''MANUAL''"
    "GhostfolioActivity.symbol (feeActivity e r) = js ''Revolut fee''"
    "comment (feeActivity e r) = js ''Revolut fee''"
    by (simp_all add: feeActivity_def revolut_fee)
  from p have "lookupCalls (fst (processRecord e idx r acts)) = []" by simp
  with p f forLoop_Cons_continue [OF p, of rs] show ?thesis by (intro exI [of _ "feeActivity e r"]) simp
qed

theorem C2_fee_row_witness:
  "\<exists>a. processRecord sampleEnv 0 (investRow (js ''fee'') [] (Num 0) (Num 0) (Num (- 3 / 2))) []
          = ([BarIncrement], Continue ([] @ [a]))
        \<and> GhostfolioActivity.quantity a = Some (Num 1)
        \<and> unitPrice a = Some (Num 0)
        \<and> fee a = Num (3 / 2)
        \<and> dataSource a = js ''MANUAL''
        \<and> GhostfolioActivity.symbol a = js ''Revolut fee''
        \<and> comment a = js ''Revolut fee''"
proof -
  let ?r = "investRow (js ''fee'') [] (Num 0) (Num 0) (Num (- 3 / 2))"
  have h: "\<not> isIgnoredRecord ?r" "toLocaleLowerCase (RevolutRecord.type ?r) = js ''fee''"
    by (simp_all add: ignored_eval js_eval)
  have t: "Math_abs (totalAmount ?r) = Num (3 / 2)" by (simp add: investRow_def)
  from C2_fee_row [OF h, of sampleEnv 0 "[]" "[]"] t show ?thesis by auto
qed

text \<open>
  C3, as the code has it. The ignore check reads the type that the parsed record holds,
  which is the type after the coercion of the tokenizer. A record whose type contains,
  without regard to case, one of the six words is skipped: no activity is added, the
  security service is not called, and the loop goes on. An invest label that no action
  rule matches is passed through by the cast, so such a label is checked in its
  original text. An invest label that an action rule matches is checked as the kind
  that the rule gives, and is not ignored.
\<close>

theorem C3_ignored_row:
  "(list_ex (containsIgnoringCase (RevolutRecord.type r)) ignoredRecordTypes \<longrightarrow>
      processRecord e idx r acts = ([BarIncrement], Continue acts)
      \<and> lookupCalls (fst (processRecord e idx r acts)) = []
      \<and> activityOf e idx r = None
      \<and> forLoop e idx (r # rs) acts =
          (BarIncrement # fst (forLoop e (Suc idx) rs acts), snd (forLoop e (Suc idx) rs acts)))
   \<and> (firstRule actionRules label = None \<longrightarrow> cast (js ''type'') label = String label)
   \<and> (firstRule actionRules label = None
       \<and> list_ex (containsIgnoringCase label) ignoredRecordTypes
       \<and> cast (js ''type'') label = String (RevolutRecord.type r) \<longrightarrow>
      processRecord e idx r acts = ([BarIncrement], Continue acts))
   \<and> (firstRule actionRules label = Some kind
       \<and> cast (js ''type'') label = String (RevolutRecord.type r) \<longrightarrow>
      RevolutRecord.type r = kind \<and> isIgnoredRecord r = False)"
proof (intro conjI impI)
  assume "list_ex (containsIgnoringCase (RevolutRecord.type r)) ignoredRecordTypes"
  then have i: "isIgnoredRecord r" by (simp add: isIgnoredRecord_contains)
  then show "processRecord e idx r acts = ([BarIncrement], Continue acts)"
    by (rule processRecord_ignored)
  then show "lookupCalls (fst (processRecord e idx r acts)) = []" by simp
  from i show "activityOf e idx r = None" by (simp add: activityOf_def)
  from i show "forLoop e idx (r # rs) acts =
      (BarIncrement # fst (forLoop e (Suc idx) rs acts), snd (forLoop e (Suc idx) rs acts))"
    by (rule forLoop_ignored)
next
  assume "firstRule actionRules label = None"
  then show "cast (js ''type'') label = String label"
    by (simp add: cast_type mapAction_spec_def)
next
  assume a: "firstRule actionRules label = None
       \<and> list_ex (containsIgnoringCase label) ignoredRecordTypes
       \<and> cast (js ''type'') label = String (RevolutRecord.type r)"
  then have "RevolutRecord.type r = label" by (auto simp: cast_type mapAction_spec_def)
  with a have "isIgnoredRecord r" by (simp add: isIgnoredRecord_contains)
  then show "processRecord e idx r acts = ([BarIncrement], Continue acts)"
    by (rule processRecord_ignored)
next
  assume a: "firstRule actionRules label = Some kind
       \<and> cast (js ''type'') label = String (RevolutRecord.type r)"
  then show t: "RevolutRecord.type r = kind" by (auto simp: cast_type mapAction_spec_def)
  from a firstRule_kinds [of label kind] t show "isIgnoredRecord r = False"
    by (intro kind_not_ignored) auto
qed

theorem C3_ignored_row_witness:
  "processRecord sampleEnv 0 (investRow (js ''Cash WithDrawal'') [] (Num 0) (Num 0) (Num 50)) []
     = ([BarIncrement], Continue [])
   \<and> lookupCalls (fst (processRecord sampleEnv 0
        (investRow (js ''Cash WithDrawal'') [] (Num 0) (Num 0) (Num 50)) [])) = []
   \<and> activityOf sampleEnv 0 (investRow (js ''Cash WithDrawal'') [] (Num 0) (Num 0) (Num 50)) = None
   \<and> cast (js ''type'') (js ''Cash WithDrawal'') = String (js ''Cash WithDrawal'')
   \<and> isIgnoredRecord (investRow (js ''fee'') [] (Num 0) (Num 0) (Num (- 2))) = False"
proof -
  let ?r = "investRow (js ''Cash WithDrawal'') [] (Num 0) (Num 0) (Num 50)"
  let ?f = "investRow (js ''fee'') [] (Num 0) (Num 0) (Num (- 2))"
  have t: "RevolutRecord.type ?r = js ''Cash WithDrawal''" "RevolutRecord.type ?f = js ''fee''"
    by (simp_all add: investRow_def)
  have i: "list_ex (containsIgnoringCase (js ''Cash WithDrawal'')) ignoredRecordTypes"
    by (simp add: ignored_eval js_eval)
  have n: "firstRule actionRules (js ''Cash WithDrawal'') = None"
    by (simp add: actionRules_def containsIgnoringCase_def sublist_code js_eval)
  have m: "firstRule actionRules (js ''Withdrawal fee'') = Some (js ''fee'')"
    by (simp add: actionRules_def containsIgnoringCase_def sublist_code js_eval)
  then have c: "cast (js ''type'') (js ''Withdrawal fee'') = String (js ''fee'')"
    by (simp add: cast_type mapAction_spec_def)
  from C3_ignored_row [of ?r sampleEnv 0 "[]" "[]" "js ''Cash WithDrawal''"] i n
  have a: "processRecord sampleEnv 0 ?r [] = ([BarIncrement], Continue [])
     \<and> lookupCalls (fst (processRecord sampleEnv 0 ?r [])) = []
     \<and> activityOf sampleEnv 0 ?r = None
     \<and> cast (js ''type'') (js ''Cash WithDrawal'') = String (js ''Cash WithDrawal'')"
    unfolding t by simp
  from C3_ignored_row [of ?f sampleEnv 0 "[]" "[]" "js ''Withdrawal fee''" "js ''fee''"] m c
  have "isIgnoredRecord ?f = False" unfolding t by blast
  with a show ?thesis by blast
qed

text \<open>
  The statement of C3 in the specification fails. An invest row of type
  \<open>Withdrawal fee\<close> has the word \<open>withdrawal\<close> in its original type, but the fee rule
  of the cast matches the label and makes its type \<open>fee\<close>: the row is not ignored, it
  is exported as a fee.
\<close>

theorem C3_counterexample:
  "containsIgnoringCase (js ''Withdrawal fee'') (js ''withdrawal'')
   \<and> cast (js ''type'') (js ''Withdrawal fee'') = String (js ''fee'')
   \<and> isIgnoredRecord (investRow (js ''fee'') [] (Num 0) (Num 0) (Num (- 2))) = False
   \<and> processRecord sampleEnv 0 (investRow (js ''fee'') [] (Num 0) (Num 0) (Num (- 2))) []
       = ([BarIncrement],
          Continue [feeActivity sampleEnv (investRow (js ''fee'') [] (Num 0) (Num 0) (Num (- 2)))])"
proof -
  have a: "containsIgnoringCase (js ''Withdrawal fee'') (js ''withdrawal'')"
    by (simp add: containsIgnoringCase_def sublist_code js_eval)
  have "mapAction_spec (js ''Withdrawal fee'') = js ''fee''"
    by (simp add: mapAction_spec_def actionRules_def containsIgnoringCase_def
        sublist_code js_eval)
  then have e: "cast (js ''type'') (js ''Withdrawal fee'') = String (js ''fee'')"
    by (simp only: cast_type)
  let ?r = "investRow (js ''fee'') [] (Num 0) (Num 0) (Num (- 2))"
  have i: "\<not> isIgnoredRecord ?r" "isFee ?r"
    by (simp_all add: ignored_eval js_eval)
  then have g: "processRecord sampleEnv 0 ?r [] = ([BarIncrement], Continue [feeActivity sampleEnv ?r])"
    using processRecord_fee [of ?r sampleEnv 0 "[]"] by simp
  from a e i(1) g show ?thesis by blast
qed

text \<open>
  C4, at an amount with a comma. In the \<open>quantity\<close>, \<open>pricePerShare\<close> and
  \<open>totalAmount\<close> columns the cast removes the dollar signs and nothing else, so the
  number read from \<open>$1,234.5\<close> ends at the comma and is 1, and an amount with a euro
  sign is not a number at all. The crypto transform, on the same texts, reads 1234.5
  and 12.5. The empty cell does become 0 and \<open>$12.50\<close> does become 12.5.
\<close>

theorem C4_comma_not_removed:
  "cast (js ''totalAmount'') (js ''$1,234.5'') = Number (Num 1)
   \<and> amountOf (js ''$1,234.5'') = Inr (Num (2469 / 2))
   \<and> cast (js ''totalAmount'') (0x20AC # js ''12.50'') = Number NaN
   \<and> amountOf (0x20AC # js ''12.50'') = Inr (Num (25 / 2))
   \<and> cast (js ''totalAmount'') [] = Number (Num 0)
   \<and> cast (js ''totalAmount'') (js ''$12.50'') = Number (Num (25 / 2))"
proof -
  have c: "js ''totalAmount'' = js ''quantity'' \<or> js ''totalAmount'' = js ''pricePerShare''
      \<or> js ''totalAmount'' = js ''totalAmount''"
    by simp
  have n: "js ''$1,234.5'' \<noteq> []" "0x20AC # js ''12.50'' \<noteq> []" "js ''$12.50'' \<noteq> []"
    by (simp_all add: js_def)
  have e: "cast (js ''totalAmount'') (0x20AC # js ''12.50'') = Number NaN"
    by (simp only: cast_numeric [OF c] cast_euro) simp
  from n have "cast (js ''totalAmount'') (js ''$1,234.5'') = Number (Num 1)"
    "cast (js ''totalAmount'') [] = Number (Num 0)"
    "cast (js ''totalAmount'') (js ''$12.50'') = Number (Num (25 / 2))"
    by (simp_all add: cast_numeric [OF c] parse_samples)
  with e amountOf_sample show ?thesis by (intro conjI)
qed

text \<open>
  C5, at a row with more than one comma in an amount. Only the first comma of the
  numeric token is removed, so \<open>$1,234,567.89\<close> is read as 1234 and \<open>$2,469,135.78\<close>
  as 2469.
\<close>

theorem C5_first_comma_only:
  "on_record (cryptoRow (js ''Buy'') (js ''$1,234,567.89'') (js ''$2,469,135.78'') (js ''$1.50''))
   = Inr \<lparr> RevolutRecord.date = js ''2024-04-30'',
           type = js ''buy'',
           ticker = None,
           symbol = Some (js ''ETH''),
           currency = js ''USD'',
           quantity = Some (Num 2),
           pricePerShare = None,
           totalAmount = None,
           price = Some (Num 1234),
           value = Some (Num 2469),
           fees = Some (Num (3 / 2)) \<rparr>"
  by (simp add: crypto_eval parse_eval js_eval)

text \<open>
  C6. For a row that is neither ignored nor a fee and whose lookup finds a security, one
  activity is appended. For a dividend its quantity is the row's quantity, or 1 when
  the row has none, and its unit price is the absolute total amount, or 1 when the row
  has none. For a buy or a sell the quantity is the row's quantity and the unit price
  is the row's price per share, or the row's price when it has no price per share.
\<close>

theorem C6_resolved_row:
  assumes "\<not> isIgnoredRecord r"
    and "toLocaleLowerCase (RevolutRecord.type r) \<noteq> js ''fee''"
    and "getSecurity e idx (securityKey r) (RevolutRecord.currency r) = Returns (Some security)"
  shows "\<exists>a. processRecord e idx r acts =
             ([GetSecurity (securityKey r) (RevolutRecord.currency r), BarIncrement],
              Continue (acts @ [a]))
           \<and> (RevolutRecord.type r = js ''dividend'' \<longrightarrow>
                GhostfolioActivity.quantity a =
                  Some (case RevolutRecord.quantity r of None \<Rightarrow> Num 1 | Some q \<Rightarrow> q)
                \<and> unitPrice a =
                  Some (Math_abs (Some (case totalAmount r of None \<Rightarrow> Num 1 | Some t \<Rightarrow> t))))
           \<and> (RevolutRecord.type r = js ''buy'' \<or> RevolutRecord.type r = js ''sell'' \<longrightarrow>
                GhostfolioActivity.quantity a = RevolutRecord.quantity r
                \<and> unitPrice a =
                  (case pricePerShare r of None \<Rightarrow> RevolutRecord.price r | Some p \<Rightarrow> Some p))
           \<and> dataSource a = js ''YAHOO''
           \<and> GhostfolioActivity.symbol a = YahooFinanceRecord.symbol security"
proof -
  from assms have p: "processRecord e idx r acts =
      ([GetSecurity (securityKey r) (RevolutRecord.currency r), BarIncrement],
       Continue (acts @ [securityActivity e r security]))"
    by (simp add: processRecord_match callsLookup_def isFee_def lookupOf_def)
  have d: "RevolutRecord.type r = js ''dividend'' \<longrightarrow>
      GhostfolioActivity.quantity (securityActivity e r security) =
        Some (case RevolutRecord.quantity r of None \<Rightarrow> Num 1 | Some q \<Rightarrow> q)
      \<and> unitPrice (securityActivity e r security) =
        Some (Math_abs (Some (case totalAmount r of None \<Rightarrow> Num 1 | Some t \<Rightarrow> t)))"
    by (simp add: securityActivity_def nullish_def split: option.splits)
  have b: "RevolutRecord.type r = js ''buy'' \<or> RevolutRecord.type r = js ''sell'' \<longrightarrow>
      GhostfolioActivity.quantity (securityActivity e r security) = RevolutRecord.quantity r
      \<and> unitPrice (securityActivity e r security) =
        (case pricePerShare r of None \<Rightarrow> RevolutRecord.price r | Some p \<Rightarrow> Some p)"
    using kinds_distinct by (auto simp: securityActivity_def nullish_def split: option.splits)
  have s: "dataSource (securityActivity e r security) = js ''YAHOO''"
    "GhostfolioActivity.symbol (securityActivity e r security) = YahooFinanceRecord.symbol security"
    by (simp_all add: securityActivity_def split: prod.splits)
  from p d b s show ?thesis by (intro exI [of _ "securityActivity e r security"]) simp
qed

theorem C6_resolved_row_witness:
  "(\<exists>a. processRecord sampleEnv 0
            (investRow (js ''dividend'') (js ''AAPL'') (Num 0) (Num 0) (Num (- 5))) []
          = ([GetSecurity (js ''AAPL'') (js ''USD''), BarIncrement], Continue [a])
        \<and> GhostfolioActivity.quantity a = Some (Num 0)
        \<and> unitPrice a = Some (Num 5))
   \<and> (\<exists>a. processRecord sampleEnv 1
            (investRow (js ''buy'') (js ''AAPL'') (Num 3) (Num 150) (Num 450)) []
          = ([GetSecurity (js ''AAPL'') (js ''USD''), BarIncrement], Continue [a])
        \<and> GhostfolioActivity.quantity a = Some (Num 3)
        \<and> unitPrice a = Some (Num 150))"
proof -
  let ?d = "investRow (js ''dividend'') (js ''AAPL'') (Num 0) (Num 0) (Num (- 5))"
  let ?b = "investRow (js ''buy'') (js ''AAPL'') (Num 3) (Num 150) (Num 450)"
  have hd: "\<not> isIgnoredRecord ?d" "toLocaleLowerCase (RevolutRecord.type ?d) \<noteq> js ''fee''"
    and hb: "\<not> isIgnoredRecord ?b" "toLocaleLowerCase (RevolutRecord.type ?b) \<noteq> js ''fee''"
    by (simp_all add: ignored_eval js_eval)
  have k: "securityKey ?d = js ''AAPL''" "securityKey ?b = js ''AAPL''"
    "RevolutRecord.currency ?d = js ''USD''" "RevolutRecord.currency ?b = js ''USD''"
    by (simp_all add: securityKey_def investRow_def)
  have g: "getSecurity sampleEnv 0 (securityKey ?d) (RevolutRecord.currency ?d)
             = Returns (Some \<lparr> YahooFinanceRecord.symbol = js ''AAPL'' \<rparr>)"
    "getSecurity sampleEnv 1 (securityKey ?b) (RevolutRecord.currency ?b)
             = Returns (Some \<lparr> YahooFinanceRecord.symbol = js ''AAPL'' \<rparr>)"
    by (simp_all add: k sampleEnv_def)
  have f: "RevolutRecord.type ?d = js ''dividend''" "RevolutRecord.type ?b = js ''buy''"
    "RevolutRecord.quantity ?d = Some (Num 0)" "totalAmount ?d = Some (Num (- 5))"
    "RevolutRecord.quantity ?b = Some (Num 3)" "pricePerShare ?b = Some (Num 150)"
    by (simp_all add: investRow_def)
  from C6_resolved_row [OF hd g(1), of "[]"] obtain a where
    "processRecord sampleEnv 0 ?d [] =
       ([GetSecurity (js ''AAPL'') (js ''USD''), BarIncrement], Continue [a])"
    "GhostfolioActivity.quantity a = Some (Num 0)" "unitPrice a = Some (Num 5)"
    unfolding k f by auto
  moreover from C6_resolved_row [OF hb g(2), of "[]"] obtain a' where
    "processRecord sampleEnv 1 ?b [] =
       ([GetSecurity (js ''AAPL'') (js ''USD''), BarIncrement], Continue [a'])"
    "GhostfolioActivity.quantity a' = Some (Num 3)" "unitPrice a' = Some (Num 150)"
    unfolding k f by auto
  ultimately show ?thesis by blast
qed

text \<open>
  C7. On the \<open>type\<close> column the cast evaluates the ordered rule list, the first rule
  that matches wins, matching is by substring without regard to case, and a label that
  no rule matches is passed through unchanged; the mapping is idempotent, and the four
  canonical kinds map to themselves.
\<close>

theorem C7_action_mapping:
  "cast (js ''type'') label = String (mapAction_spec label)
   \<and> castAction label = firstRule actionRules label
   \<and> mapAction_spec (mapAction_spec label) = mapAction_spec label
   \<and> cast (js ''type'') (js ''buy'') = String (js ''buy'')
   \<and> cast (js ''type'') (js ''sell'') = String (js ''sell'')
   \<and> cast (js ''type'') (js ''dividend'') = String (js ''dividend'')
   \<and> cast (js ''type'') (js ''fee'') = String (js ''fee'')
   \<and> cast (js ''type'') (js ''BUY - MARKET'') = String (js ''buy'')
   \<and> cast (js ''type'') (js ''Stock Split'') = String (js ''buy'')
   \<and> cast (js ''type'') (js ''sell to buy'') = String (js ''buy'')
   \<and> cast (js ''type'') (js ''CUSTODY FEE'') = String (js ''fee'')
   \<and> cast (js ''type'') (js ''CASH TOP-UP'') = String (js ''CASH TOP-UP'')"
proof -
  have "mapAction_spec (js ''BUY - MARKET'') = js ''buy''"
    "mapAction_spec (js ''Stock Split'') = js ''buy''"
    "mapAction_spec (js ''sell to buy'') = js ''buy''"
    "mapAction_spec (js ''CUSTODY FEE'') = js ''fee''"
    "mapAction_spec (js ''CASH TOP-UP'') = js ''CASH TOP-UP''"
    by (simp_all add: mapAction_spec_def actionRules_def containsIgnoringCase_def js_eval
        sublist_code)
  then show ?thesis
    by (simp add: cast_type castAction_spec mapAction_idempotent mapAction_canonical)
qed

text \<open>
  C8. For every input string the currency detector removes every digit, dot and comma,
  trims white space, uppercases what is left and maps the euro sign to EUR, the dollar
  sign to USD, the pound sign to GBP, \<open>SEK\<close> to SEK and everything else, the empty
  remainder too, to EUR.
\<close>

theorem C8_detectCurrency:
  "detectCurrency v = detectCurrency_spec v
   \<and> detectCurrency (0x20AC # js ''100'') = js ''EUR''
   \<and> detectCurrency (js ''$50'') = js ''USD''
   \<and> detectCurrency (0xA3 # js ''20'') = js ''GBP''
   \<and> detectCurrency (js ''100 SEK'') = js ''SEK''
   \<and> detectCurrency (js ''100'') = js ''EUR''
   \<and> detectCurrency [] = js ''EUR''"
proof -
  have "detectCurrency v = detectCurrency_spec v" for v
    by (simp add: detectCurrency_def detectCurrency_spec_def replaceAll_filter)
  then show ?thesis
    by (simp add: detectCurrency_spec_def js_eval)
qed

text \<open>
  C9. When a run succeeds, the activities of the export are the activities of the rows
  that contribute one, in the order of the rows: the \<open>i\<close>-th activity comes from the
  \<open>i\<close>-th contributing row, the contributing rows are listed in increasing position,
  and an ignored row or a row whose lookup finds nothing is not among them.
\<close>

theorem C9_order_preserved:
  assumes "SuccessCallback x \<in> set (processRevolutFile e err (Some rs))"
  shows "activities x = map (\<lambda>k. the (activityOf e k (rs ! k))) (producers e rs)
         \<and> sorted_wrt (<) (producers e rs)
         \<and> (\<forall>i j. i < length (producers e rs) \<and> j < length (producers e rs) \<longrightarrow>
               (i < j) = (producers e rs ! i < producers e rs ! j))
         \<and> (\<forall>k. k < length rs \<longrightarrow>
               (k \<in> set (producers e rs)) = (activityOf e k (rs ! k) \<noteq> None))
         \<and> (\<forall>k. k < length rs \<and> isIgnoredRecord (rs ! k) \<longrightarrow> k \<notin> set (producers e rs))
         \<and> (\<forall>k. k < length rs \<and> callsLookup (rs ! k) \<and> lookupOf e k (rs ! k) = Returns None
               \<longrightarrow> k \<notin> set (producers e rs))"
proof (intro conjI allI impI)
  show "activities x = map (\<lambda>k. the (activityOf e k (rs ! k))) (producers e rs)"
    using assms by (rule success_activities)
  show "sorted_wrt (<) (producers e rs)" by (rule producers_sorted)
next
  fix i j
  assume "i < length (producers e rs) \<and> j < length (producers e rs)"
  then show "(i < j) = (producers e rs ! i < producers e rs ! j)"
    using sorted_wrt_less_nth_iff [OF producers_sorted] by blast
next
  fix k assume "k < length rs"
  then show "(k \<in> set (producers e rs)) = (activityOf e k (rs ! k) \<noteq> None)"
    by (simp add: producers_def)
next
  fix k assume "k < length rs \<and> isIgnoredRecord (rs ! k)"
  then show "k \<notin> set (producers e rs)"
    by (simp add: producers_def activityOf_def)
next
  fix k assume "k < length rs \<and> callsLookup (rs ! k) \<and> lookupOf e k (rs ! k) = Returns None"
  then show "k \<notin> set (producers e rs)"
    by (simp add: producers_def activityOf_def callsLookup_def)
qed

theorem C9_order_preserved_witness:
  "activities sampleExport =
     map (\<lambda>k. the (activityOf sampleEnv k (sampleRows ! k))) (producers sampleEnv sampleRows)
   \<and> sorted_wrt (<) (producers sampleEnv sampleRows)
   \<and> producers sampleEnv sampleRows = [1, 3]
   \<and> length (activities sampleExport) = 2"
proof -
  have "SuccessCallback sampleExport \<in> set (processRevolutFile sampleEnv None (Some sampleRows))"
    by (simp add: sample_run)
  from C9_order_preserved [OF this]
  have "activities sampleExport =
     map (\<lambda>k. the (activityOf sampleEnv k (sampleRows ! k))) (producers sampleEnv sampleRows)"
    and "sorted_wrt (<) (producers sampleEnv sampleRows)"
    by blast+
  moreover have "length (activities sampleExport) = 2" by (simp add: sampleExport_def)
  ultimately show ?thesis using sample_producers by blast
qed

text \<open>
  C10. The crypto transform returns a record whenever the \<open>value\<close> and the \<open>fees\<close>
  cell are each empty or hold a digit, dot or comma; the \<open>price\<close> cell is safe for
  every string; a \<open>value\<close> or \<open>fees\<close> cell that is not empty and holds no digit, dot
  or comma has no match, and reading the first match throws a TypeError.
\<close>

theorem C10_crypto_transform_total:
  "(amountCellOk (CryptoRow.value row) \<and> amountCellOk (CryptoRow.fees row)
      \<longrightarrow> (\<exists>r. on_record row = Inr r))
   \<and> (\<exists>n. priceOf s = Inr n)
   \<and> (\<not> amountCellOk (CryptoRow.value row) \<or> \<not> amountCellOk (CryptoRow.fees row)
      \<longrightarrow> (\<exists>m. on_record row = Inl (TypeError m)))
   \<and> (\<not> amountCellOk cell
      \<longrightarrow> matchAll isAmountChar cell = None \<and> (\<exists>m. amountOf cell = Inl (TypeError m)))"
  using on_record_total [of row] on_record_throws [of row] priceOf_total [of s]
    amountOf_throws [of cell]
  by blast

theorem C10_crypto_transform_total_witness:
  "(\<exists>r. on_record (cryptoRow (js ''Buy'') (js ''$10'') (js ''$20'') []) = Inr r)
   \<and> (\<exists>n. priceOf (js ''free'') = Inr n)
   \<and> (\<exists>m. on_record (cryptoRow (js ''Buy'') (js ''$10'') (js ''n/a'') []) = Inl (TypeError m))
   \<and> matchAll isAmountChar (js ''n/a'') = None
   \<and> (\<exists>m. amountOf (js ''n/a'') = Inl (TypeError m))"
proof -
  have ok: "amountCellOk (js ''$20'')" "amountCellOk []" "\<not> amountCellOk (js ''n/a'')"
    by (simp_all add: amountCellOk_def js_eval)
  show ?thesis
    using C10_crypto_transform_total
        [of "cryptoRow (js ''Buy'') (js ''$10'') (js ''$20'') []" "js ''free''" "js ''n/a''"]
      C10_crypto_transform_total
        [of "cryptoRow (js ''Buy'') (js ''$10'') (js ''n/a'') []" "js ''free''" "js ''n/a''"]
      ok
    by (simp add: cryptoRow_def)
qed

section \<open>Further properties of the converter\<close>

text \<open>
  X1. The crypto transform leaves only the types \<open>buy\<close>, \<open>sell\<close> and \<open>dividend\<close>, and
  none of them contains an ignored word: no row of a crypto file is ever ignored,
  whatever its original type was.
\<close>

theorem X1_crypto_rows_never_ignored:
  assumes "on_record row = Inr r"
  shows "(RevolutRecord.type r = js ''buy'' \<or> RevolutRecord.type r = js ''sell''
            \<or> RevolutRecord.type r = js ''dividend'')
         \<and> isIgnoredRecord r = False"
  using on_record_type [OF assms] canonical_not_ignored [of r] by simp

theorem X1_crypto_rows_never_ignored_witness:
  "(RevolutRecord.type stakeRecord = js ''buy'' \<or> RevolutRecord.type stakeRecord = js ''sell''
      \<or> RevolutRecord.type stakeRecord = js ''dividend'')
   \<and> isIgnoredRecord stakeRecord = False"
  by (rule X1_crypto_rows_never_ignored [OF on_record_stake])

text \<open>
  X2. In a run without a fatal condition the progress bar is incremented once for every
  row, whatever becomes of the row.
\<close>

theorem X2_progress_once_per_row:
  assumes "\<not> fatal e err (Some rs)"
  shows "increments (processRevolutFile e err (Some rs)) = length rs"
proof -
  from assms have r: "err = None" "rs \<noteq> []" by (auto simp: fatal_def)
  with assms have t: "\<not> (\<exists>k<length rs. lookupThrows e (0 + k) (rs ! k))"
    by (simp add: fatal_def list_ex_upt)
  obtain evs res where l: "forLoop e 0 rs [] = (evs, res)" by (cases "forLoop e 0 rs []") blast
  from forLoop_outcome [OF l] t obtain acts' where s: "res = Some acts'" by blast
  from forLoop_increments [of e 0 rs "[]" evs acts'] l s have "increments evs = length rs"
    by simp
  with r l s show ?thesis
    by (simp add: processRevolutFile_rows increments_append)
qed

theorem X2_progress_once_per_row_witness:
  "increments (processRevolutFile sampleEnv None (Some sampleRows)) = length sampleRows"
  by (rule X2_progress_once_per_row [OF sample_fatal(2)])

text \<open>
  X3. In the \<open>currency\<close> column the cast rewrites \<open>GBX\<close> to \<open>GBp\<close> and leaves every
  other value as it is.
\<close>

theorem X3_currency_alias:
  "cast (js ''currency'') v = String (if v = js ''GBX'' then js ''GBp'' else v)"
  by (simp add: cast_def currency_column)

end
